theory Spec2Isabelle
  imports Complex_Main "HOL-Library.AList"
begin

section \<open>JavaScript values used by the engine wrapper\<close>

text \<open>
  The class \<open>StockfishInstance\<close> of \<open>src/stockfish.ts\<close> drives one Stockfish child
  process, parses its output and keeps two static maps of instances. This theory embeds
  that class: the string and number primitives it calls first, then its fields and
  methods, then the static pool.

  A JavaScript number is NaN, an infinity or a finite value. Finite values are kept as
  exact rationals: the rounding of IEEE doubles is not modelled, and the two zeros are
  one value.
\<close>

datatype jsnum = NaN | Num rat | PosInf | NegInf

text \<open>The comparison \<open>a > b\<close> on numbers: false as soon as one side is NaN.\<close>

fun js_gt :: "jsnum \<Rightarrow> jsnum \<Rightarrow> bool" where
  "js_gt (Num a) (Num b) = (b < a)"
| "js_gt PosInf (Num b) = True"
| "js_gt PosInf NegInf = True"
| "js_gt (Num a) NegInf = True"
| "js_gt _ _ = False"

text \<open>The comparison \<open>a == b\<close> on numbers: NaN is not equal to itself.\<close>

fun js_eq :: "jsnum \<Rightarrow> jsnum \<Rightarrow> bool" where
  "js_eq NaN _ = False"
| "js_eq _ NaN = False"
| "js_eq a b = (a = b)"

text \<open>\<open>x / 100\<close>, \<open>x * -1\<close> and \<open>x - 1\<close>.\<close>

fun js_div100 :: "jsnum \<Rightarrow> jsnum" where
  "js_div100 (Num a) = Num (a / 100)"
| "js_div100 x = x"

fun js_negate :: "jsnum \<Rightarrow> jsnum" where
  "js_negate (Num a) = Num (- a)"
| "js_negate PosInf = NegInf"
| "js_negate NegInf = PosInf"
| "js_negate NaN = NaN"

fun js_minus1 :: "jsnum \<Rightarrow> jsnum" where
  "js_minus1 (Num a) = Num (a - 1)"
| "js_minus1 x = x"

subsection \<open>Strings\<close>

text \<open>
  Strings and buffers are lists of characters. The engine prints ASCII, for which a byte
  of the buffer and a code unit of the decoded string coincide, so \<open>Buffer.toString\<close> is
  the identity here.
\<close>

fun startsWith :: "string \<Rightarrow> string \<Rightarrow> bool" where
  "startsWith s [] = True"
| "startsWith [] (p # ps) = False"
| "startsWith (c # cs) (p # ps) = (c = p \<and> startsWith cs ps)"

text \<open>
  \<open>find_at needle s i\<close> scans \<open>s\<close>, whose first character has index \<open>i\<close> in the whole
  string, for the first occurrence of \<open>needle\<close>; \<open>-1\<close> when there is none.
\<close>

fun find_at :: "string \<Rightarrow> string \<Rightarrow> nat \<Rightarrow> int" where
  "find_at needle [] i = (if needle = [] then int i else - 1)"
| "find_at needle (c # cs) i =
     (if startsWith (c # cs) needle then int i else find_at needle cs (Suc i))"

text \<open>\<open>s.indexOf(needle, from)\<close>: the start position is clamped to the string.\<close>

definition indexOf :: "string \<Rightarrow> string \<Rightarrow> int \<Rightarrow> int" where
  "indexOf s needle from =
     (let k = min (nat from) (length s) in find_at needle (drop k s) k)"

definition str_includes :: "string \<Rightarrow> string \<Rightarrow> bool" where
  "str_includes s needle = (indexOf s needle 0 \<noteq> - 1)"

text \<open>
  \<open>s.substring(a, b)\<close>: both positions are clamped to the string (a negative one
  becomes 0) and swapped when the first is the larger.
\<close>

definition substring :: "string \<Rightarrow> int \<Rightarrow> int \<Rightarrow> string" where
  "substring s a b =
     (let n = length s;
          a' = min (nat a) n;
          b' = min (nat b) n;
          lo = min a' b';
          hi = max a' b'
      in take (hi - lo) (drop lo s))"

text \<open>\<open>s.substring(a)\<close>: to the end of the string.\<close>

definition substring_from :: "string \<Rightarrow> int \<Rightarrow> string" where
  "substring_from s a = substring s a (int (length s))"

text \<open>\<open>s.split(sep)\<close> for a separator of one character; never the empty list.\<close>

fun split :: "char \<Rightarrow> string \<Rightarrow> string list" where
  "split sep [] = [[]]"
| "split sep (c # cs) =
     (if c = sep then [] # split sep cs
      else (case split sep cs of
              [] \<Rightarrow> [[c]]
            | r # rs \<Rightarrow> (c # r) # rs))"

text \<open>White space and line terminators of the ASCII range, as \<open>trim\<close> strips them.\<close>

definition is_ws :: "char \<Rightarrow> bool" where
  "is_ws c = (c = CHR '' '' \<or> c = CHR 0x09 \<or> c = CHR 0x0A \<or> c = CHR 0x0B
              \<or> c = CHR 0x0C \<or> c = CHR 0x0D)"

definition trim :: "string \<Rightarrow> string" where
  "trim s = rev (dropWhile is_ws (rev (dropWhile is_ws s)))"

subsection \<open>Buffers\<close>

text \<open>\<open>buf.lastIndexOf('\n')\<close>: the index of the last line feed, \<open>-1\<close> without one.\<close>

fun lastIndexOf_nl :: "string \<Rightarrow> nat \<Rightarrow> int" where
  "lastIndexOf_nl [] i = - 1"
| "lastIndexOf_nl (c # cs) i =
     (let r = lastIndexOf_nl cs (Suc i)
      in if r \<noteq> - 1 then r else if c = CHR 0x0A then int i else - 1)"

text \<open>
  \<open>buf.slice(a, b)\<close>: a negative position counts from the end of the buffer, both are
  clamped to the buffer, and the slice is empty when the end is not after the start.
\<close>

definition buf_index :: "nat \<Rightarrow> int \<Rightarrow> nat" where
  "buf_index n i = (if i < 0 then nat (int n + i) else min (nat i) n)"

definition buf_slice :: "string \<Rightarrow> int \<Rightarrow> int \<Rightarrow> string" where
  "buf_slice b a e =
     (let lo = buf_index (length b) a; hi = buf_index (length b) e
      in take (hi - lo) (drop lo b))"

definition buf_slice_from :: "string \<Rightarrow> int \<Rightarrow> string" where
  "buf_slice_from b a = buf_slice b a (int (length b))"

subsection \<open>Conversion of a string to a number\<close>

text \<open>
  The unary plus of \<open>+line.substring(\<dots>)\<close> is the conversion of a string to a number:
  white space is stripped at both ends, the empty string is 0, a signed decimal literal
  (with an optional fraction and exponent), \<open>Infinity\<close> and an unsigned literal with a
  radix prefix are read, and anything else is NaN.
\<close>

definition digit_val :: "char \<Rightarrow> nat" where
  "digit_val c = of_char c - 48"

definition is_digit :: "char \<Rightarrow> bool" where
  "is_digit c = (48 \<le> (of_char c :: nat) \<and> (of_char c :: nat) \<le> 57)"

definition hex_val :: "char \<Rightarrow> nat option" where
  "hex_val c =
     (let n = (of_char c :: nat)
      in if 48 \<le> n \<and> n \<le> 57 then Some (n - 48)
         else if 97 \<le> n \<and> n \<le> 102 then Some (n - 87)
         else if 65 \<le> n \<and> n \<le> 70 then Some (n - 55)
         else None)"

text \<open>The value of a digit string in a radix, from an accumulator; None on a bad digit.\<close>

fun radix_acc :: "nat \<Rightarrow> nat \<Rightarrow> string \<Rightarrow> nat option" where
  "radix_acc base acc [] = Some acc"
| "radix_acc base acc (c # cs) =
     (case hex_val c of
        None \<Rightarrow> None
      | Some d \<Rightarrow> if d < base then radix_acc base (acc * base + d) cs else None)"

definition radix_literal :: "nat \<Rightarrow> string \<Rightarrow> jsnum" where
  "radix_literal base ds =
     (if ds = [] then NaN
      else (case radix_acc base 0 ds of None \<Rightarrow> NaN | Some n \<Rightarrow> Num (of_nat n)))"

definition digits_val :: "string \<Rightarrow> nat" where
  "digits_val ds = foldl (\<lambda>acc c. acc * 10 + digit_val c) 0 ds"

text \<open>The exponent part \<open>e\<close>, \<open>e+\<close> or \<open>e-\<close> followed by digits up to the end.\<close>

definition exponent_part :: "string \<Rightarrow> int option" where
  "exponent_part s =
     (case s of
        [] \<Rightarrow> Some 0
      | c # cs \<Rightarrow>
          if c = CHR ''e'' \<or> c = CHR ''E'' then
            (let (neg, ds) =
                   (case cs of
                      [] \<Rightarrow> (False, [])
                    | d # ds' \<Rightarrow>
                        if d = CHR ''-'' then (True, ds')
                        else if d = CHR ''+'' then (False, ds')
                        else (False, cs))
             in if ds \<noteq> [] \<and> list_all is_digit ds
                then Some (if neg then - int (digits_val ds) else int (digits_val ds))
                else None)
          else None)"

definition pow10 :: "int \<Rightarrow> rat" where
  "pow10 e = (if e < 0 then 1 / (10 ^ nat (- e)) else 10 ^ nat e)"

text \<open>An unsigned decimal literal: digits, an optional fraction, an optional exponent.\<close>

definition unsigned_decimal :: "string \<Rightarrow> rat option" where
  "unsigned_decimal s =
     (let ip = takeWhile is_digit s;
          r1 = dropWhile is_digit s;
          (fp, r2) =
             (case r1 of
                [] \<Rightarrow> ([], [])
              | c # cs \<Rightarrow>
                  if c = CHR ''.'' then (takeWhile is_digit cs, dropWhile is_digit cs)
                  else ([], r1));
          dotted = (r1 \<noteq> [] \<and> hd r1 = CHR ''.'')
      in if ip = [] \<and> fp = [] then None
         else (case exponent_part r2 of
                 None \<Rightarrow> None
               | Some e \<Rightarrow>
                   Some ((of_nat (digits_val ip)
                          + of_nat (digits_val fp) / (10 ^ length fp)) * pow10 e)))"

definition signed_decimal :: "string \<Rightarrow> jsnum" where
  "signed_decimal s =
     (let (neg, body) =
            (case s of
               [] \<Rightarrow> (False, [])
             | c # cs \<Rightarrow>
                 if c = CHR ''-'' then (True, cs)
                 else if c = CHR ''+'' then (False, cs)
                 else (False, s))
      in if body = ''Infinity'' then (if neg then NegInf else PosInf)
         else (case unsigned_decimal body of
                 None \<Rightarrow> NaN
               | Some r \<Rightarrow> Num (if neg then - r else r)))"

definition toNumber :: "string \<Rightarrow> jsnum" where
  "toNumber s =
     (let t = trim s
      in if t = [] then Num 0
         else if startsWith t ''0x'' \<or> startsWith t ''0X'' then radix_literal 16 (drop 2 t)
         else if startsWith t ''0o'' \<or> startsWith t ''0O'' then radix_literal 8 (drop 2 t)
         else if startsWith t ''0b'' \<or> startsWith t ''0B'' then radix_literal 2 (drop 2 t)
         else signed_decimal t)"

section \<open>The data of an instance\<close>

text \<open>
  \<open>StockfishScore\<close>, \<open>StockfishLine\<close>, \<open>StockfishAnalysis\<close> and
  \<open>StockfishAnalysisOptions\<close>. Two records cannot share a field name, so the fields
  \<open>score\<close> and \<open>lines\<close> that occur twice in the source carry a prefix in one of the two.
\<close>

datatype StockfishScoreType = Exact | Mate | Lowerbound | Upperbound

record StockfishScore =
  score :: jsnum
  scoreType :: StockfishScoreType

record StockfishLine =
  line_score :: StockfishScore
  moves :: "string list"

text \<open>
  An array of lines. \<open>elems\<close> are the indexed elements, None for a hole; \<open>length\<close>,
  \<open>filter\<close> and \<open>forEach\<close> see only them. An assignment \<open>a[k] = v\<close> whose \<open>k\<close> is not an
  array index (negative, fractional, NaN, or at least \<open>2^32 - 1\<close>) sets a plain property
  of the array object: these are kept in \<open>props\<close>.
\<close>

record jsarray =
  elems :: "StockfishLine option list"
  props :: "(jsnum \<times> StockfishLine) list"

definition empty_array :: jsarray where
  "empty_array = \<lparr>elems = [], props = []\<rparr>"

definition is_array_index :: "jsnum \<Rightarrow> bool" where
  "is_array_index k =
     (case k of
        Num r \<Rightarrow> 0 \<le> r \<and> r = of_int \<lfloor>r\<rfloor> \<and> r < 4294967295
      | _ \<Rightarrow> False)"

definition array_index :: "jsnum \<Rightarrow> nat" where
  "array_index k = (case k of Num r \<Rightarrow> nat \<lfloor>r\<rfloor> | _ \<Rightarrow> 0)"

text \<open>\<open>a[k] = v\<close>: an index beyond the end extends the array with holes.\<close>

definition array_set :: "jsarray \<Rightarrow> jsnum \<Rightarrow> StockfishLine \<Rightarrow> jsarray" where
  "array_set a k v =
     (if is_array_index k then
        (let i = array_index k
         in if i < length (elems a) then a\<lparr>elems := (elems a)[i := Some v]\<rparr>
            else a\<lparr>elems := elems a @ replicate (i - length (elems a)) None @ [Some v]\<rparr>)
      else a\<lparr>props := AList.update k v (props a)\<rparr>)"

text \<open>\<open>a.filter(line => line != null).length\<close>\<close>

definition populated :: "jsarray \<Rightarrow> nat" where
  "populated a = length (filter (\<lambda>x. x \<noteq> None) (elems a))"

record StockfishAnalysis =
  depth :: jsnum
  lines :: "jsarray option"
  noLegalMoves :: "bool option"

record StockfishAnalysisOptions =
  opt_lines :: "jsnum option"

datatype instance_state = Stopping | Ready | Terminated

datatype colour = White | Black

text \<open>
  The lines written to the standard input of a child process: \<open>uci\<close>, \<open>ucinewgame\<close>,
  \<open>position fen \<dots>\<close>, \<open>position startpos moves \<dots>\<close>, \<open>setoption name MultiPV value \<dots>\<close>
  with the value of \<open>options.lines\<close>, \<open>go infinite\<close> and \<open>stop\<close>.

  What a method does to the outside: a child process spawned, a line written to the
  standard input of a child process, a child process killed, a listener called with an
  analysis, a line printed on the console. A listener is known by a number; a child
  process by the handle that \<open>spawn\<close> returned.
\<close>

datatype command =
    Uci
  | UciNewGame
  | PositionFen string
  | PositionStartposMoves string
  | SetMultiPV "jsnum option"
  | GoInfinite
  | Stop

datatype effect =
    Spawned nat
  | Written nat command
  | Killed nat
  | Notified nat StockfishAnalysis
  | Logged string

datatype error = TypeError

text \<open>
  The fields of an instance. \<open>inst_id\<close> is the field \<open>id\<close> and \<open>child\<close> the field
  \<open>instance\<close>. A field that holds \<open>undefined\<close> or \<open>null\<close> is None: the code reads such a
  field only through a test for truth or a property access, which do not tell the two
  apart. A map with number keys is an association list in insertion order.
\<close>

record StockfishInstance =
  inst_id :: string
  child :: nat
  bestLines :: "(jsnum \<times> jsarray) list"
  currentDepth :: jsnum
  analysisOptions :: "StockfishAnalysisOptions option"
  analysisListeners :: "nat list"
  state :: "instance_state option"
  hasStarted :: bool
  turn :: "colour option"
  currentAnalysisOptions :: "StockfishAnalysisOptions option"
  stockfishOutputBuffer :: string

section \<open>The methods of an instance\<close>

definition reset :: "StockfishInstance \<Rightarrow> StockfishInstance" where
  "reset this = this\<lparr>bestLines := [], currentDepth := Num 0, analysisListeners := []\<rparr>"

text \<open>\<open>fen.split(' ')[1]\<close>: the second field, \<open>undefined\<close> when there is none.\<close>

definition setBoardstateByFen ::
  "StockfishInstance \<Rightarrow> string \<Rightarrow> StockfishInstance \<times> effect list" where
  "setBoardstateByFen this fen =
     (let fields = split CHR '' '' fen;
          second = (if 1 < length fields then Some (fields ! 1) else None)
      in (this\<lparr>turn := Some (if second = Some ''w'' then White else Black)\<rparr>,
          [Written (child this) (PositionFen fen)]))"

definition setBoardstateByMoves ::
  "StockfishInstance \<Rightarrow> string \<Rightarrow> StockfishInstance \<times> effect list" where
  "setBoardstateByMoves this mvs =
     (this\<lparr>turn := Some (if length (split CHR '' '' mvs) mod 2 \<noteq> 0 then Black else White)\<rparr>,
      [Written (child this) (PositionStartposMoves mvs)])"

text \<open>
  \<open>startAnalysing\<close>. The options object is shared: the default written into
  \<open>options.lines\<close> is seen through \<open>currentAnalysisOptions\<close> and \<open>analysisOptions\<close> alike.
\<close>

definition startAnalysing ::
  "StockfishInstance \<Rightarrow> StockfishAnalysisOptions \<Rightarrow> StockfishInstance \<times> effect list" where
  "startAnalysing this options =
     (let this1 = this\<lparr>currentAnalysisOptions := Some options, hasStarted := True\<rparr>;
          this2 = reset this1;
          options' = (if opt_lines options = None then options\<lparr>opt_lines := Some (Num 1)\<rparr>
                      else options);
          this3 = this2\<lparr>currentAnalysisOptions := Some options', analysisOptions := Some options'\<rparr>
      in (this3,
          [Written (child this) (SetMultiPV (opt_lines options')),
           Written (child this) GoInfinite]))"

definition stopAnalysing :: "StockfishInstance \<Rightarrow> StockfishInstance \<times> effect list" where
  "stopAnalysing this =
     (let this1 = this\<lparr>currentAnalysisOptions := None\<rparr>
      in if \<not> hasStarted this1 then (this1, [])
         else (this1\<lparr>state := Some Stopping\<rparr>, [Written (child this) Stop]))"

definition onAnalysisData :: "StockfishInstance \<Rightarrow> nat \<Rightarrow> StockfishInstance" where
  "onAnalysisData this listener = this\<lparr>analysisListeners := analysisListeners this @ [listener]\<rparr>"

definition getCurrentBestLines :: "StockfishInstance \<Rightarrow> StockfishAnalysis" where
  "getCurrentBestLines this =
     \<lparr>depth = currentDepth this,
      lines = map_of (bestLines this) (currentDepth this),
      noLegalMoves = None\<rparr>"

definition processNoLegalMoves :: "StockfishInstance \<Rightarrow> effect list" where
  "processNoLegalMoves this =
     map (\<lambda>listener. Notified listener
            \<lparr>depth = Num 0, lines = Some empty_array, noLegalMoves = Some True\<rparr>)
         (analysisListeners this)"

text \<open>
  The score of an info line: the token after \<open>' score '\<close> names the kind, the token after
  it is the value. None is the branch that prints \<open>unknown score type\<close> and returns.
\<close>

definition score_type_token :: "string \<Rightarrow> string" where
  "score_type_token line =
     (let scoreTypeIndexBegin = indexOf line '' score '' 0 + 7;
          scoreTypeIndexEnd = indexOf line '' '' scoreTypeIndexBegin
      in substring line scoreTypeIndexBegin scoreTypeIndexEnd)"

definition decode_score :: "string \<Rightarrow> StockfishScore option" where
  "decode_score line =
     (let scoreTypeIndexBegin = indexOf line '' score '' 0 + 7;
          scoreTypeIndexEnd = indexOf line '' '' scoreTypeIndexBegin;
          scoreType = score_type_token line;
          scoreIndexBegin = scoreTypeIndexEnd + 1;
          scoreIndexEnd = indexOf line '' '' scoreIndexBegin;
          raw = toNumber (substring line scoreIndexBegin scoreIndexEnd)
      in if scoreType = ''cp'' then Some \<lparr>score = js_div100 raw, scoreType = Exact\<rparr>
         else if scoreType = ''mate'' then Some \<lparr>score = raw, scoreType = Mate\<rparr>
         else if scoreType = ''lowerbound'' then Some \<lparr>score = js_div100 raw, scoreType = Lowerbound\<rparr>
         else if scoreType = ''upperbound'' then Some \<lparr>score = js_div100 raw, scoreType = Upperbound\<rparr>
         else None)"

definition decode_depth :: "string \<Rightarrow> jsnum" where
  "decode_depth line =
     (let depthIndexBegin = indexOf line '' depth '' 0 + 7;
          depthIndexEnd = indexOf line '' '' depthIndexBegin
      in toNumber (substring line depthIndexBegin depthIndexEnd))"

definition decode_lineNumber :: "string \<Rightarrow> jsnum" where
  "decode_lineNumber line =
     (let lineNumberIndexBegin = indexOf line '' multipv '' 0 + 9;
          lineNumberIndexEnd = indexOf line '' '' lineNumberIndexBegin
      in toNumber (substring line lineNumberIndexBegin lineNumberIndexEnd))"

definition decode_moves :: "string \<Rightarrow> string list" where
  "decode_moves line =
     (let movesIndexBegin = indexOf line '' pv '' 0 + 4
      in split CHR '' '' (substring_from line movesIndexBegin))"

text \<open>\<open>if (this.turn == 'black') score.score *= -1\<close>\<close>

definition to_white_perspective :: "colour option \<Rightarrow> StockfishScore \<Rightarrow> StockfishScore" where
  "to_white_perspective t sc = (if t = Some Black then sc\<lparr>score := js_negate (score sc)\<rparr> else sc)"

text \<open>
  The test \<open>analysisComplete\<close> of \<open>processInfo\<close>, on the map after the line was stored:
  \<open>n == this.analysisOptions.lines || depth > 1 && n == this.bestLines.get(1).length\<close>.
  Reading \<open>lines\<close> of an \<open>analysisOptions\<close> that was never set, or \<open>length\<close> of a missing
  entry for depth 1, throws; the second operand of \<open>||\<close> and of \<open>&&\<close> is evaluated only
  when the first does not decide.
\<close>

definition analysisComplete ::
  "StockfishInstance \<Rightarrow> (jsnum \<times> jsarray) list \<Rightarrow> jsnum \<Rightarrow> nat \<Rightarrow> error + bool" where
  "analysisComplete this bl d numLinesOfCurrentDepth =
     (case analysisOptions this of
        None \<Rightarrow> Inl TypeError
      | Some ao \<Rightarrow>
          if (case opt_lines ao of
                None \<Rightarrow> False
              | Some l \<Rightarrow> js_eq (Num (of_nat numLinesOfCurrentDepth)) l) then Inr True
          else if js_gt d (Num 1) then
            (case map_of bl (Num 1) of
               None \<Rightarrow> Inl TypeError
             | Some first \<Rightarrow> Inr (numLinesOfCurrentDepth = length (elems first)))
          else Inr False)"

text \<open>
  \<open>processInfo\<close>. The listeners receive the array of the depth as it is after the line
  was stored.
\<close>

definition processInfo ::
  "StockfishInstance \<Rightarrow> string \<Rightarrow> error + (StockfishInstance \<times> effect list)" where
  "processInfo this line =
     (if indexOf line '' score '' 0 = - 1
         \<or> indexOf line '' depth '' 0 = - 1
         \<or> indexOf line '' multipv '' 0 = - 1 then Inr (this, [])
      else
        (let d = decode_depth line;
             lineNumber = decode_lineNumber line
         in case decode_score line of
              None \<Rightarrow>
                Inr (this, [Logged (''Stockfish: unknown score type: '' @ score_type_token line)])
            | Some sc \<Rightarrow>
                (let sc' = to_white_perspective (turn this) sc;
                     mvs = decode_moves line;
                     bl1 = (if map_of (bestLines this) d = None
                            then AList.update d empty_array (bestLines this)
                            else bestLines this);
                     linesOfCurrentDepth =
                       array_set (the (map_of bl1 d)) (js_minus1 lineNumber)
                         \<lparr>line_score = sc', moves = mvs\<rparr>;
                     bl2 = AList.update d linesOfCurrentDepth bl1;
                     numLinesOfCurrentDepth = populated linesOfCurrentDepth
                 in case analysisComplete this bl2 d numLinesOfCurrentDepth of
                      Inl e \<Rightarrow> Inl e
                    | Inr is_complete \<Rightarrow>
                        Inr (this\<lparr>bestLines := bl2,
                                  currentDepth :=
                                    (if is_complete \<and> js_gt d (currentDepth this) then d
                                     else currentDepth this)\<rparr>,
                             if is_complete
                             then map (\<lambda>listener. Notified listener
                                         \<lparr>depth = d, lines = Some linesOfCurrentDepth,
                                          noLegalMoves = None\<rparr>)
                                      (analysisListeners this)
                             else []))))"

text \<open>One round of the loop of \<open>process\<close>, for one line.\<close>

definition process_line ::
  "StockfishInstance \<Rightarrow> string \<Rightarrow> error + (StockfishInstance \<times> effect list)" where
  "process_line this line =
     (let this1 = (if startsWith line ''bestmove'' then this\<lparr>state := Some Ready\<rparr> else this)
      in if state this1 \<noteq> Some Ready then Inr (this1, [])
         else if startsWith line ''info'' then
           (if str_includes line ''pv'' then processInfo this1 line
            else if str_includes line ''mate 0'' \<or> str_includes line ''cp 0''
              then Inr (this1, processNoLegalMoves this1)
            else if str_includes line ''currmove'' \<or> str_includes line ''NNUE evaluation''
              then Inr (this1, [])
            else Inr (this1, [Logged ''[ Stockfish: not processed ]:'', Logged line]))
         else Inr (this1, []))"

text \<open>The loop itself: an exception leaves it, and nothing after it is run.\<close>

fun process_lines ::
  "StockfishInstance \<Rightarrow> string list \<Rightarrow> error + (StockfishInstance \<times> effect list)" where
  "process_lines this [] = Inr (this, [])"
| "process_lines this (line # rest) =
     (case process_line this line of
        Inl e \<Rightarrow> Inl e
      | Inr (this1, out1) \<Rightarrow>
          (case process_lines this1 rest of
             Inl e \<Rightarrow> Inl e
           | Inr (this2, out2) \<Rightarrow> Inr (this2, out1 @ out2)))"

definition process ::
  "StockfishInstance \<Rightarrow> string \<Rightarrow> error + (StockfishInstance \<times> effect list)" where
  "process this chunk =
     process_lines this (filter (\<lambda>line. 0 < length (trim line)) (split CHR 0x0A chunk))"

text \<open>
  The handler of \<open>stdout\<close> data that \<open>initialise\<close> installs. The line printed under
  \<open>DEBUG\<close> is left out.
\<close>

definition on_stdout_data ::
  "StockfishInstance \<Rightarrow> string \<Rightarrow> error + (StockfishInstance \<times> effect list)" where
  "on_stdout_data this chunk0 =
     (let chunk = stockfishOutputBuffer this @ chunk0;
          lastNewline = lastIndexOf_nl chunk 0;
          this1 = (if lastNewline \<noteq> int (length chunk) - 1
                   then this\<lparr>stockfishOutputBuffer := buf_slice_from chunk (lastNewline + 1)\<rparr>
                   else this\<lparr>stockfishOutputBuffer := []\<rparr>)
      in process this1 (buf_slice chunk 0 lastNewline))"

text \<open>Chunks arrive one after the other; an exception ends the run.\<close>

fun on_stdout_chunks ::
  "StockfishInstance \<Rightarrow> string list \<Rightarrow> error + (StockfishInstance \<times> effect list)" where
  "on_stdout_chunks this [] = Inr (this, [])"
| "on_stdout_chunks this (chunk # rest) =
     (case on_stdout_data this chunk of
        Inl e \<Rightarrow> Inl e
      | Inr (this1, out1) \<Rightarrow>
          (case on_stdout_chunks this1 rest of
             Inl e \<Rightarrow> Inl e
           | Inr (this2, out2) \<Rightarrow> Inr (this2, out1 @ out2)))"

section \<open>The static pool\<close>

text \<open>
  The two static maps hold references to instance objects. The objects live in \<open>heap\<close>,
  an object is known by its position there, and a map from identifiers to instances is an
  association list in insertion order, as the iteration of a \<open>Map\<close> is. An object may sit
  in a map under a key that is not its current \<open>id\<close>.
\<close>

record pool =
  usedInstances :: "(string \<times> nat) list"
  idleInstances :: "(string \<times> nat) list"
  heap :: "StockfishInstance list"

definition MAX_IDLE_INSTANCES :: nat where
  "MAX_IDLE_INSTANCES = 4"

definition empty_pool :: pool where
  "empty_pool = \<lparr>usedInstances = [], idleInstances = [], heap = []\<rparr>"

text \<open>
  An object as \<open>new\<close> makes it, before the constructor body runs: \<open>hasStarted\<close> has its
  initialiser, every other field is undefined. \<open>initialise\<close> assigns \<open>id\<close>, \<open>instance\<close>,
  \<open>bestLines\<close>, \<open>currentDepth\<close>, \<open>analysisListeners\<close>, \<open>state\<close> and
  \<open>stockfishOutputBuffer\<close> before anything reads them.
\<close>

definition blank_instance :: StockfishInstance where
  "blank_instance =
     \<lparr>inst_id = [], child = 0, bestLines = [], currentDepth = Num 0,
      analysisOptions = None, analysisListeners = [], state = None,
      hasStarted = False, turn = None, currentAnalysisOptions = None,
      stockfishOutputBuffer = []\<rparr>"

text \<open>The object at an address, and a method of that object run in place.\<close>

definition obj :: "pool \<Rightarrow> nat \<Rightarrow> StockfishInstance" where
  "obj w a = heap w ! a"

definition set_obj :: "pool \<Rightarrow> nat \<Rightarrow> StockfishInstance \<Rightarrow> pool" where
  "set_obj w a this = w\<lparr>heap := (heap w)[a := this]\<rparr>"

text \<open>
  \<open>initialise\<close>, for the object at \<open>a\<close>. \<open>new_id\<close> is what
  \<open>randomBytes(16).toString('hex')\<close> returns and \<open>new_child\<close> what \<open>spawn\<close> returns.
\<close>

definition initialise :: "nat \<Rightarrow> string \<Rightarrow> nat \<Rightarrow> pool \<Rightarrow> pool \<times> effect list" where
  "initialise a new_id new_child w =
     (let this1 = (obj w a)\<lparr>inst_id := new_id, child := new_child\<rparr>;
          this2 = reset this1;
          w1 = w\<lparr>idleInstances := AList.update (inst_id this2) a (idleInstances w)\<rparr>;
          this3 = this2\<lparr>stockfishOutputBuffer := []\<rparr>;
          this4 = this3\<lparr>state := Some Ready\<rparr>
      in (set_obj w1 a this4,
          [Spawned new_child, Written new_child Uci, Written new_child UciNewGame]))"

text \<open>\<open>new StockfishInstance()\<close>: the address of the new object and the pool after it.\<close>

definition new_StockfishInstance :: "string \<Rightarrow> nat \<Rightarrow> pool \<Rightarrow> nat \<times> pool \<times> effect list" where
  "new_StockfishInstance new_id new_child w =
     (let a = length (heap w);
          w1 = w\<lparr>heap := heap w @ [blank_instance]\<rparr>;
          (w2, out) = initialise a new_id new_child w1
      in (a, w2, out))"

text \<open>
  \<open>getInstance\<close>. \<open>idleInstances.values().next().value\<close> is the instance that was put
  into the map first. The identifier and the child handle are used only when an instance
  is constructed.
\<close>

definition getInstance :: "string \<Rightarrow> nat \<Rightarrow> pool \<Rightarrow> nat \<times> pool \<times> effect list" where
  "getInstance new_id new_child w =
     (if 0 < length (idleInstances w) then
        (let a = snd (hd (idleInstances w));
             w1 = w\<lparr>idleInstances := AList.delete (inst_id (obj w a)) (idleInstances w)\<rparr>;
             w2 = w1\<lparr>usedInstances := AList.update (inst_id (obj w a)) a (usedInstances w1)\<rparr>
         in (a, w2, []))
      else
        (let (a, w1, out) = new_StockfishInstance new_id new_child w;
             w2 = w1\<lparr>usedInstances := AList.update (inst_id (obj w1 a)) a (usedInstances w1)\<rparr>
         in (a, w2, out)))"

definition terminate :: "nat \<Rightarrow> pool \<Rightarrow> pool \<times> effect list" where
  "terminate a w =
     (let this = obj w a;
          w1 = w\<lparr>usedInstances := AList.delete (inst_id this) (usedInstances w)\<rparr>;
          w2 = w1\<lparr>idleInstances := AList.delete (inst_id this) (idleInstances w1)\<rparr>
      in (set_obj w2 a (this\<lparr>state := Some Terminated\<rparr>), [Killed (child this)]))"

definition stopUsing :: "nat \<Rightarrow> pool \<Rightarrow> pool \<times> effect list" where
  "stopUsing a w =
     (let this = obj w a;
          w1 = w\<lparr>usedInstances := AList.delete (inst_id this) (usedInstances w)\<rparr>
      in if length (idleInstances w1) = MAX_IDLE_INSTANCES then terminate a w1
         else (w1\<lparr>idleInstances := AList.update (inst_id this) a (idleInstances w1)\<rparr>, []))"

text \<open>
  The handler of the \<open>exit\<close> event of the child process of the object at \<open>a\<close>.
  \<open>code_signal\<close> is the text of the exit code and the signal, as the warning prints them;
  \<open>new_id\<close> and \<open>new_child\<close> are what the call of \<open>initialise\<close> in it draws.
\<close>

definition exited_early :: "string \<Rightarrow> effect" where
  "exited_early code_signal =
     Logged (''Stockfish process exited early with code '' @ code_signal @ '', restarting...'')"

definition on_exit :: "nat \<Rightarrow> string \<Rightarrow> string \<Rightarrow> nat \<Rightarrow> pool \<Rightarrow> pool \<times> effect list" where
  "on_exit a code_signal new_id new_child w =
     (if state (obj w a) = Some Terminated then (w, [])
      else
        (let (w1, out1) = initialise a new_id new_child w
         in case currentAnalysisOptions (obj w1 a) of
              None \<Rightarrow> (w1, exited_early code_signal # out1)
            | Some options \<Rightarrow>
                (let (this2, out2) = startAnalysing (obj w1 a) options
                 in (set_obj w1 a this2, exited_early code_signal # out1 @ out2))))"

text \<open>A method of the instance at \<open>a\<close> that touches only the instance.\<close>

definition on_instance ::
  "nat \<Rightarrow> (StockfishInstance \<Rightarrow> StockfishInstance \<times> effect list) \<Rightarrow> pool \<Rightarrow> pool \<times> effect list" where
  "on_instance a m w = (let (this1, out) = m (obj w a) in (set_obj w a this1, out))"

section \<open>Runs used in the statements below\<close>

text \<open>
  The first instance of a process: \<open>getInstance\<close> on the empty pool, with \<open>1f\<close> drawn
  as identifier and 1 as the handle of the child process.
\<close>

definition acquired :: "nat \<times> pool \<times> effect list" where
  "acquired = getInstance ''1f'' 1 empty_pool"

definition ready_instance :: StockfishInstance where
  "ready_instance = obj (fst (snd acquired)) (fst acquired)"

definition black_fen :: string where
  "black_fen = ''rnbqkbnr/pppppppp/8/8/4P3/8/PPPP1PPP/RNBQKBNR b KQkq - 0 1''"

definition white_fen :: string where
  "white_fen = ''rnbqkbnr/pppppppp/8/8/8/8/PPPPPPPP/RNBQKBNR w KQkq - 0 1''"

text \<open>
  A session on that instance with one listener, number 7: \<open>setBoardstateByFen(fen)\<close>,
  \<open>startAnalysing({lines: n})\<close>, \<open>onAnalysisData(\<dots>)\<close>. The two positions are the
  start position, white to move, and the position after 1. e4, black to move.
\<close>

definition session :: "string \<Rightarrow> jsnum option \<Rightarrow> StockfishInstance" where
  "session fen n =
     onAnalysisData
       (fst (startAnalysing (fst (setBoardstateByFen ready_instance fen)) \<lparr>opt_lines = n\<rparr>)) 7"

text \<open>Short forms for the values in the statements.\<close>

definition exact_line :: "rat \<Rightarrow> string list \<Rightarrow> StockfishLine" where
  "exact_line v ms = \<lparr>line_score = \<lparr>score = Num v, scoreType = Exact\<rparr>, moves = ms\<rparr>"

definition dense :: "StockfishLine list \<Rightarrow> jsarray" where
  "dense ls = \<lparr>elems = map Some ls, props = []\<rparr>"

definition completed :: "rat \<Rightarrow> jsarray \<Rightarrow> StockfishAnalysis" where
  "completed d arr = \<lparr>depth = Num d, lines = Some arr, noLegalMoves = None\<rparr>"

definition no_legal_moves :: StockfishAnalysis where
  "no_legal_moves = \<lparr>depth = Num 0, lines = Some empty_array, noLegalMoves = Some True\<rparr>"

text \<open>
  A pool in which the instance \<open>1f\<close> is in use and analysing: it was constructed, given
  back, handed out again, and a session was started on it.
\<close>

definition pool_in_session :: pool where
  "pool_in_session =
     (let w1 = fst (snd acquired);
          w2 = fst (stopUsing 0 w1);
          w3 = fst (snd (getInstance ''3c'' 3 w2));
          w4 = fst (on_instance 0 (\<lambda>this. setBoardstateByFen this black_fen) w3)
      in fst (on_instance 0 (\<lambda>this. startAnalysing this \<lparr>opt_lines = Some (Num 1)\<rparr>) w4))"

text \<open>
  States of sessions after some output; the statements that use them show how the
  methods reach them. Three lines requested and only rank 2 reported at depth 1; three
  lines requested, ranks 1 and 2 reported at depth 1 and rank 1 at depth 5, and the same
  after rank 2 of depth 5; one line requested and depth 10 completed, with a raw score of
  25 and of 50 centipawns.
\<close>

definition only_second_rank :: StockfishInstance where
  "only_second_rank =
     (session white_fen (Some (Num 3)))
       \<lparr>bestLines := [(Num 1, \<lparr>elems = [None, Some (exact_line (1 / 10) [''d2d4''])], props = []\<rparr>)]\<rparr>"

definition two_of_three :: StockfishInstance where
  "two_of_three =
     (session white_fen (Some (Num 3)))
       \<lparr>bestLines := [(Num 1, dense [exact_line (3 / 10) [''e2e4''], exact_line (1 / 5) [''d2d4'']]),
                      (Num 5, dense [exact_line (7 / 20) [''e2e4'', ''e7e5'']])]\<rparr>"

definition tie_break_line :: string where
  "tie_break_line = ''info depth 5 multipv 2 score cp 25 pv d2d4 d7d5''"

definition two_of_three_done :: StockfishInstance where
  "two_of_three_done =
     two_of_three
       \<lparr>bestLines := [(Num 1, dense [exact_line (3 / 10) [''e2e4''], exact_line (1 / 5) [''d2d4'']]),
                      (Num 5, dense [exact_line (7 / 20) [''e2e4'', ''e7e5''],
                                     exact_line (1 / 4) [''d2d4'', ''d7d5'']])],
         currentDepth := Num 5\<rparr>"

definition depth_10_done :: StockfishInstance where
  "depth_10_done =
     (session black_fen (Some (Num 1)))
       \<lparr>bestLines := [(Num 10, dense [exact_line (- 1 / 4) [''e7e5'']])], currentDepth := Num 10\<rparr>"

definition plus_50_line :: string where
  "plus_50_line = ''info depth 10 multipv 1 score cp 50 pv e7e5''"

definition plus_50_done :: StockfishInstance where
  "plus_50_done =
     (session black_fen (Some (Num 1)))
       \<lparr>bestLines := [(Num 10, dense [exact_line (- 1 / 2) [''e7e5'']])], currentDepth := Num 10\<rparr>"

definition depth_10_line :: string where
  "depth_10_line = ''info depth 10 multipv 1 score cp 25 pv e7e5''"

text \<open>
  Four lines that are dropped: no \<open>multipv\<close>, an unknown kind of score, an info line
  that nothing recognises, a line that is not an info line. And the line that Stockfish
  prints for a stalemate.
\<close>

definition discarded_chunk :: string where
  "discarded_chunk =
     ''info depth 3 score cp 20 pv e2e4\<newline>''
     @ ''info depth 3 multipv 1 score sideways 20 pv e2e4\<newline>''
     @ ''info nodes 100 time 3\<newline>''
     @ ''Stockfish 15 by the Stockfish developers\<newline>''"

definition stalemate_line :: string where
  "stalemate_line = ''info depth 0 score cp 0''"

text \<open>
  The pool in which the instance \<open>1f\<close> has completed depth 10 of its session; the line
  with rank 1 at depth 0; and the session with three lines requested after rank 1 of
  depth 1.
\<close>

definition pool_after_depth_10 :: pool where
  "pool_after_depth_10 = set_obj pool_in_session 0 depth_10_done"

definition depth_0_line :: string where
  "depth_0_line = ''info depth 0 multipv 1 score cp 25 pv e2e4''"

definition rank_1_of_3 :: StockfishInstance where
  "rank_1_of_3 =
     (session white_fen (Some (Num 3)))
       \<lparr>bestLines := [(Num 1, dense [exact_line (1 / 4) [''e2e4'']])]\<rparr>"

text \<open>
  Two malformed lines that have the three markers: a depth that is not a number, and no
  rank after \<open>multipv\<close>. And the session with one line requested after the first of
  them.
\<close>

definition garbled_depth_line :: string where
  "garbled_depth_line = ''info depth abc multipv 1 score cp 25 pv e7e5''"

definition missing_rank_line :: string where
  "missing_rank_line = ''info depth 5 multipv score cp 25 pv e7e5''"

definition garbled_depth_stored :: StockfishInstance where
  "garbled_depth_stored =
     (session black_fen (Some (Num 1)))
       \<lparr>bestLines := [(NaN, dense [exact_line (- 1 / 4) [''e7e5'']])]\<rparr>"

section \<open>Notions used in the statements below\<close>

text \<open>The three markers that \<open>processInfo\<close> requires before it decodes a line.\<close>

definition has_fields :: "string \<Rightarrow> bool" where
  "has_fields line =
     (indexOf line '' score '' 0 \<noteq> - 1 \<and> indexOf line '' depth '' 0 \<noteq> - 1
      \<and> indexOf line '' multipv '' 0 \<noteq> - 1)"

text \<open>The array of a depth before a line is stored: the one in the map, or a new one.\<close>

definition previous_array :: "StockfishInstance \<Rightarrow> jsnum \<Rightarrow> jsarray" where
  "previous_array this d =
     (case map_of (bestLines this) d of None \<Rightarrow> empty_array | Some arr \<Rightarrow> arr)"

text \<open>The array of the depth of a line after \<open>processInfo\<close> stored the line with score \<open>sc\<close>.\<close>

definition stored_array :: "StockfishInstance \<Rightarrow> string \<Rightarrow> StockfishScore \<Rightarrow> jsarray" where
  "stored_array this line sc =
     array_set (previous_array this (decode_depth line)) (js_minus1 (decode_lineNumber line))
       \<lparr>line_score = to_white_perspective (turn this) sc, moves = decode_moves line\<rparr>"

text \<open>Every listener called with one analysis, in the order of registration.\<close>

definition notifications :: "StockfishInstance \<Rightarrow> StockfishAnalysis \<Rightarrow> effect list" where
  "notifications this a = map (\<lambda>listener. Notified listener a) (analysisListeners this)"

text \<open>\<open>n == this.analysisOptions.lines\<close>, false when no number is recorded there.\<close>

definition requested :: "StockfishInstance \<Rightarrow> nat \<Rightarrow> bool" where
  "requested this n =
     (case analysisOptions this of
        None \<Rightarrow> False
      | Some ao \<Rightarrow> (case opt_lines ao of None \<Rightarrow> False | Some l \<Rightarrow> js_eq (Num (of_nat n)) l))"

text \<open>\<open>a\<close> is \<open>b\<close> or \<open>a > b\<close>.\<close>

definition js_ge :: "jsnum \<Rightarrow> jsnum \<Rightarrow> bool" where
  "js_ge a b = (a = b \<or> js_gt a b)"

text \<open>
  The lines that \<open>process\<close> and \<open>processInfo\<close> drop: a line that is neither the
  \<open>bestmove\<close> sentinel nor an info line; an info line with \<open>pv\<close> in it that lacks one of
  the three markers or whose score kind is none of the four known; an info line without
  \<open>pv\<close> that does not report a position without legal moves.
\<close>

definition dropped_line :: "string \<Rightarrow> bool" where
  "dropped_line line =
     (\<not> startsWith line ''bestmove''
      \<and> (if startsWith line ''info'' then
           (if str_includes line ''pv'' then \<not> has_fields line \<or> decode_score line = None
            else \<not> (str_includes line ''mate 0'' \<or> str_includes line ''cp 0''))
         else True))"

text \<open>
  The handler of \<open>stdout\<close> data in two parts: the text that it passes to \<open>process\<close> for
  a buffer and a chunk, and the buffer that it keeps. \<open>processed_lines\<close> are the lines that
  the loop of \<open>process\<close> sees over a sequence of chunks. \<open>nothing_yet\<close> is the answer
  \<open>{depth: 0, lines: undefined}\<close> of the query.
\<close>

definition ready_text :: "string \<Rightarrow> string \<Rightarrow> string" where
  "ready_text buffer chunk =
     (let full = buffer @ chunk in buf_slice full 0 (lastIndexOf_nl full 0))"

definition next_buffer :: "string \<Rightarrow> string \<Rightarrow> string" where
  "next_buffer buffer chunk =
     (let full = buffer @ chunk;
          lastNewline = lastIndexOf_nl full 0
      in if lastNewline \<noteq> int (length full) - 1 then buf_slice_from full (lastNewline + 1)
         else [])"

fun processed_lines :: "string \<Rightarrow> string list \<Rightarrow> string list" where
  "processed_lines buffer [] = []"
| "processed_lines buffer (chunk # rest) =
     filter (\<lambda>line. 0 < length (trim line)) (split CHR 0x0A (ready_text buffer chunk))
     @ processed_lines (next_buffer buffer chunk) rest"

definition nothing_yet :: StockfishAnalysis where
  "nothing_yet = \<lparr>depth = Num 0, lines = None, noLegalMoves = None\<rparr>"

section \<open>Properties of the pool\<close>

lemma obj_set_obj_same: "a < length (heap w) \<Longrightarrow> obj (set_obj w a this) a = this"
  by (simp add: obj_def set_obj_def)

lemma initialise_registers_idle:
  assumes "a < length (heap w)" and "initialise a new_id new_child w = (w', out)"
  shows "inst_id (obj w' a) = new_id" and "child (obj w' a) = new_child"
    and "state (obj w' a) = Some Ready"
    and "idleInstances w' = AList.update new_id a (idleInstances w)"
    and "usedInstances w' = usedInstances w"
    and "length (heap w') = length (heap w)"
    and "hasStarted (obj w' a) = hasStarted (obj w a)"
    and "currentAnalysisOptions (obj w' a) = currentAnalysisOptions (obj w a)"
    and "out = [Spawned new_child, Written new_child Uci, Written new_child UciNewGame]"
  using assms
  by (auto simp: initialise_def Let_def reset_def obj_def set_obj_def)

text \<open>
  C1. The claim: every identifier is in exactly one of the two maps, and an instance that
  \<open>getInstance\<close> constructs is moved to \<open>usedInstances\<close> and is no longer idle. The code
  does otherwise. When no instance is idle, \<open>getInstance\<close> constructs one, \<open>initialise\<close>
  puts it into \<open>idleInstances\<close>, and \<open>getInstance\<close> adds it to \<open>usedInstances\<close> without
  deleting it from \<open>idleInstances\<close>, as the branch for an idle instance does. The new
  identifier is then in both maps, and the next call of \<open>getInstance\<close> hands out the same
  object again.
\<close>

theorem getInstance_constructed_in_both_maps:
  assumes "idleInstances w = []"
    and "getInstance new_id new_child w = (a, w', out)"
  shows "map_of (idleInstances w') new_id = Some a
       \<and> map_of (usedInstances w') new_id = Some a
       \<and> fst (getInstance id2 child2 w') = a"
proof -
  obtain w1 out1 where init: "initialise (length (heap w)) new_id new_child
      (w\<lparr>heap := heap w @ [blank_instance]\<rparr>) = (w1, out1)"
    by (cases "initialise (length (heap w)) new_id new_child (w\<lparr>heap := heap w @ [blank_instance]\<rparr>)")
  have len: "length (heap w) < length (heap (w\<lparr>heap := heap w @ [blank_instance]\<rparr>))"
    by simp
  note facts = initialise_registers_idle [OF len init]
  from assms init have a: "a = length (heap w)"
    and w': "w' = w1\<lparr>usedInstances :=
        AList.update (inst_id (obj w1 (length (heap w)))) (length (heap w)) (usedInstances w1)\<rparr>"
    by (auto simp: getInstance_def new_StockfishInstance_def Let_def)
  have idle: "idleInstances w' = [(new_id, a)]"
    using facts(4) assms(1) a w' by simp
  have used: "map_of (usedInstances w') new_id = Some a"
    using facts(1) a w' by (simp add: update_conv')
  have again: "fst (getInstance id2 child2 w') = a"
    using idle by (simp add: getInstance_def Let_def)
  from idle used again show ?thesis by simp
qed

theorem getInstance_constructed_in_both_maps_witness:
  "idleInstances empty_pool = []
   \<and> fst (getInstance ''1f'' 1 empty_pool) = 0
   \<and> map_of (idleInstances (fst (snd (getInstance ''1f'' 1 empty_pool)))) ''1f'' = Some 0
   \<and> map_of (usedInstances (fst (snd (getInstance ''1f'' 1 empty_pool)))) ''1f'' = Some 0
   \<and> fst (getInstance ''2e'' 2 (fst (snd (getInstance ''1f'' 1 empty_pool)))) = 0"
proof -
  have h1: "idleInstances empty_pool = []"
    by (simp add: empty_pool_def)
  obtain w' out where h2: "getInstance ''1f'' 1 empty_pool = (0, w', out)"
    by (cases "getInstance ''1f'' 1 empty_pool")
       (simp add: getInstance_def new_StockfishInstance_def empty_pool_def Let_def split: prod.splits)
  show ?thesis
    using h1 h2 getInstance_constructed_in_both_maps [OF h1 h2, of "''2e''" 2] by simp
qed

text \<open>
  C2. The claim: after an unexpected exit the instance is initialised again, a recorded
  configuration is replayed, and the instance keeps its identifier and its place in the
  pool. The first two hold. The third does not: the handler calls \<open>initialise\<close>, which
  draws a new identifier, stores it in \<open>id\<close> and registers the object in \<open>idleInstances\<close>
  under it; \<open>usedInstances\<close> is not touched and still holds the object under the old key.
\<close>

theorem on_exit_draws_new_identifier:
  assumes "state (obj w a) \<noteq> Some Terminated"
    and "a < length (heap w)"
    and "on_exit a code_signal new_id new_child w = (w', out)"
  shows "inst_id (obj w' a) = new_id
       \<and> map_of (idleInstances w') new_id = Some a
       \<and> usedInstances w' = usedInstances w
       \<and> state (obj w' a) = Some Ready
       \<and> child (obj w' a) = new_child
       \<and> (\<forall>options. currentAnalysisOptions (obj w a) = Some options \<longrightarrow>
            obj w' a = fst (startAnalysing (obj (fst (initialise a new_id new_child w)) a) options)
            \<and> Written new_child GoInfinite \<in> set out)"
proof -
  obtain w1 out1 where init: "initialise a new_id new_child w = (w1, out1)"
    by (cases "initialise a new_id new_child w")
  note facts = initialise_registers_idle [OF assms(2) init]
  have len1: "a < length (heap w1)"
    using facts(6) assms(2) by simp
  show ?thesis
  proof (cases "currentAnalysisOptions (obj w a)")
    case None
    then have "w' = w1"
      using assms(1,3) init facts(8) by (simp add: on_exit_def)
    then show ?thesis
      using facts None by (simp add: update_conv')
  next
    case (Some options)
    obtain this2 out2 where start: "startAnalysing (obj w1 a) options = (this2, out2)"
      by (cases "startAnalysing (obj w1 a) options")
    have w': "w' = set_obj w1 a this2"
      and out: "out = exited_early code_signal # out1 @ out2"
      using assms(1,3) init facts(8) Some start by (auto simp: on_exit_def)
    have this2: "obj w' a = this2"
      using w' len1 by (simp add: obj_set_obj_same)
    have fields: "inst_id this2 = new_id" "state this2 = Some Ready" "child this2 = new_child"
      and go: "Written new_child GoInfinite \<in> set out2"
      using start facts(1-3) by (auto simp: startAnalysing_def Let_def reset_def)
    have maps: "idleInstances w' = idleInstances w1" "usedInstances w' = usedInstances w1"
      using w' by (simp_all add: set_obj_def)
    show ?thesis
      using this2 fields go maps facts(4,5) Some start init out
      by (simp add: update_conv')
  qed
qed

theorem on_exit_draws_new_identifier_witness:
  "state (obj pool_in_session 0) \<noteq> Some Terminated
   \<and> 0 < length (heap pool_in_session)
   \<and> inst_id (obj pool_in_session 0) = ''1f''
   \<and> usedInstances pool_in_session = [(''1f'', 0)]
   \<and> idleInstances pool_in_session = []
   \<and> inst_id (obj (fst (on_exit 0 ''1 null'' ''2e'' 2 pool_in_session)) 0) = ''2e''
   \<and> usedInstances (fst (on_exit 0 ''1 null'' ''2e'' 2 pool_in_session)) = [(''1f'', 0)]
   \<and> map_of (idleInstances (fst (on_exit 0 ''1 null'' ''2e'' 2 pool_in_session))) ''2e'' = Some 0
   \<and> currentAnalysisOptions (obj pool_in_session 0) = Some \<lparr>opt_lines = Some (Num 1)\<rparr>
   \<and> Written 2 GoInfinite \<in> set (snd (on_exit 0 ''1 null'' ''2e'' 2 pool_in_session))"
proof -
  have h1: "state (obj pool_in_session 0) \<noteq> Some Terminated"
    by code_simp
  have h2: "0 < length (heap pool_in_session)"
    by code_simp
  have before: "inst_id (obj pool_in_session 0) = ''1f''"
    "usedInstances pool_in_session = [(''1f'', 0)]" "idleInstances pool_in_session = []"
    "currentAnalysisOptions (obj pool_in_session 0) = Some \<lparr>opt_lines = Some (Num 1)\<rparr>"
    by code_simp+
  obtain w' out where h3: "on_exit 0 ''1 null'' ''2e'' 2 pool_in_session = (w', out)"
    by (cases "on_exit 0 ''1 null'' ''2e'' 2 pool_in_session")
  have results: "fst (on_exit 0 ''1 null'' ''2e'' 2 pool_in_session) = w'"
    "snd (on_exit 0 ''1 null'' ''2e'' 2 pool_in_session) = out"
    using h3 by simp_all
  note general = on_exit_draws_new_identifier [OF h1 h2 h3]
  from general before(2) have used: "usedInstances w' = [(''1f'', 0)]"
    by simp
  from general before(4) have replayed: "Written 2 GoInfinite \<in> set out"
    by blast
  from general have drawn: "inst_id (obj w' 0) = ''2e''"
    and idle: "map_of (idleInstances w') ''2e'' = Some 0"
    by blast+
  show ?thesis
    unfolding results
    by (intro conjI h1 h2 before drawn used idle replayed)
qed

section \<open>What \<open>processInfo\<close> does to a line\<close>

lemma processInfo_stores:
  assumes run: "processInfo this line = Inr (this', out)"
    and fields: "has_fields line"
    and sc: "decode_score line = Some sc"
  shows "\<exists>c. map_of (bestLines this') (decode_depth line) = Some (stored_array this line sc)
          \<and> (\<forall>k. k \<noteq> decode_depth line \<longrightarrow> map_of (bestLines this') k = map_of (bestLines this) k)
          \<and> analysisComplete this (bestLines this') (decode_depth line)
                (populated (stored_array this line sc)) = Inr c
          \<and> this' = this\<lparr>bestLines := bestLines this',
                currentDepth := (if c \<and> js_gt (decode_depth line) (currentDepth this)
                                 then decode_depth line else currentDepth this)\<rparr>
          \<and> out = (if c then notifications this
                       \<lparr>depth = decode_depth line, lines = Some (stored_array this line sc),
                        noLegalMoves = None\<rparr> else [])"
proof -
  define d where "d = decode_depth line"
  define bl1 where "bl1 = (if map_of (bestLines this) d = None
      then AList.update d empty_array (bestLines this) else bestLines this)"
  define arr where "arr = array_set (the (map_of bl1 d)) (js_minus1 (decode_lineNumber line))
      \<lparr>line_score = to_white_perspective (turn this) sc, moves = decode_moves line\<rparr>"
  define bl2 where "bl2 = AList.update d arr bl1"
  have unfolded: "processInfo this line =
      (case analysisComplete this bl2 d (populated arr) of
         Inl e \<Rightarrow> Inl e
       | Inr c \<Rightarrow> Inr (this\<lparr>bestLines := bl2,
                          currentDepth := (if c \<and> js_gt d (currentDepth this) then d
                                           else currentDepth this)\<rparr>,
                     if c then map (\<lambda>listener. Notified listener
                                 \<lparr>depth = d, lines = Some arr, noLegalMoves = None\<rparr>)
                              (analysisListeners this)
                     else []))"
    using fields sc
    unfolding processInfo_def has_fields_def bl1_def arr_def bl2_def d_def Let_def
    by simp
  obtain c where c: "analysisComplete this bl2 d (populated arr) = Inr c"
    using run unfolded by (cases "analysisComplete this bl2 d (populated arr)") simp_all
  have this': "this' = this\<lparr>bestLines := bl2,
        currentDepth := (if c \<and> js_gt d (currentDepth this) then d else currentDepth this)\<rparr>"
    and out: "out = (if c then map (\<lambda>listener. Notified listener
                                 \<lparr>depth = d, lines = Some arr, noLegalMoves = None\<rparr>)
                              (analysisListeners this) else [])"
    using run unfolded c by simp_all
  have prev: "the (map_of bl1 d) = previous_array this d"
    by (simp add: bl1_def previous_array_def update_conv' split: option.splits)
  have arr: "arr = stored_array this line sc"
    using prev unfolding arr_def stored_array_def d_def by simp
  have bl: "bestLines this' = bl2"
    using this' by simp
  have at_d: "map_of bl2 d = Some arr"
    by (simp add: bl2_def update_conv')
  have other: "\<forall>k. k \<noteq> d \<longrightarrow> map_of bl2 k = map_of (bestLines this) k"
    by (simp add: bl2_def bl1_def update_conv')
  show ?thesis
    using c this' out arr bl at_d other
    by (auto simp: d_def notifications_def)
qed


lemma analysisComplete_Inr:
  assumes "analysisComplete this bl d n = Inr c"
  shows "c = (requested this n
              \<or> (js_gt d (Num 1) \<and> (\<exists>first. map_of bl (Num 1) = Some first \<and> n = length (elems first))))"
  using assms
  unfolding analysisComplete_def requested_def
  by (auto split: option.splits if_splits)

lemma processInfo_discards:
  assumes "\<not> has_fields line \<or> decode_score line = None"
  shows "\<exists>out. processInfo this line = Inr (this, out) \<and> (\<forall>e \<in> set out. \<exists>s. e = Logged s)"
proof (cases "has_fields line")
  case False
  then have "processInfo this line = Inr (this, [])"
    unfolding processInfo_def has_fields_def by auto
  then show ?thesis by simp
next
  case True
  with assms have "decode_score line = None" by simp
  with True have "processInfo this line
      = Inr (this, [Logged (''Stockfish: unknown score type: '' @ score_type_token line)])"
    unfolding processInfo_def has_fields_def Let_def by simp
  then show ?thesis by simp
qed

lemma completion_general:
  assumes "has_fields line" and "decode_score line = Some sc"
    and "processInfo this line = Inr (this', out)"
  shows "let d = decode_depth line;
             arr = the (map_of (bestLines this') d);
             n = populated arr;
             fired = (requested this n
                      \<or> (js_gt d (Num 1)
                          \<and> (\<exists>first. map_of (bestLines this') (Num 1) = Some first
                                      \<and> n = length (elems first))))
         in out = (if fired then notifications this \<lparr>depth = d, lines = Some arr, noLegalMoves = None\<rparr>
                   else [])
            \<and> currentDepth this' = (if fired \<and> js_gt d (currentDepth this) then d
                                     else currentDepth this)"
proof -
  from processInfo_stores [OF assms(3,1,2)] obtain c where
    at_d: "map_of (bestLines this') (decode_depth line) = Some (stored_array this line sc)"
    and c: "analysisComplete this (bestLines this') (decode_depth line)
              (populated (stored_array this line sc)) = Inr c"
    and this': "this' = this\<lparr>bestLines := bestLines this',
                currentDepth := (if c \<and> js_gt (decode_depth line) (currentDepth this)
                                 then decode_depth line else currentDepth this)\<rparr>"
    and out: "out = (if c then notifications this
                       \<lparr>depth = decode_depth line, lines = Some (stored_array this line sc),
                        noLegalMoves = None\<rparr> else [])"
    by blast
  have depth': "currentDepth this' = (if c \<and> js_gt (decode_depth line) (currentDepth this)
                                 then decode_depth line else currentDepth this)"
    by (subst this') simp
  note fired = analysisComplete_Inr [OF c]
  show ?thesis
    unfolding Let_def at_d option.sel
    using out depth' fired by simp
qed

section \<open>The depth never falls while output is processed\<close>

lemma js_gt_trans: "js_gt a b \<Longrightarrow> js_gt b c \<Longrightarrow> js_gt a c"
  by (cases a; cases b; cases c) auto

lemma js_ge_refl: "js_ge a a"
  by (simp add: js_ge_def)

lemma js_ge_trans: "js_ge a b \<Longrightarrow> js_ge b c \<Longrightarrow> js_ge a c"
  unfolding js_ge_def using js_gt_trans by blast

lemma processInfo_depth:
  assumes "processInfo this line = Inr (this', out)"
  shows "currentDepth this' = currentDepth this
         \<or> (js_gt (currentDepth this') (currentDepth this)
             \<and> (\<exists>arr. out = notifications this
                   \<lparr>depth = currentDepth this', lines = Some arr, noLegalMoves = None\<rparr>))"
proof (cases "has_fields line \<and> decode_score line \<noteq> None")
  case False
  then have "\<not> has_fields line \<or> decode_score line = None" by simp
  from processInfo_discards [OF this, of this] assms have "this' = this" by auto
  then show ?thesis by simp
next
  case True
  then obtain sc where sc: "decode_score line = Some sc" and f: "has_fields line" by auto
  from processInfo_stores [OF assms f sc] obtain c where
    this': "this' = this\<lparr>bestLines := bestLines this',
                currentDepth := (if c \<and> js_gt (decode_depth line) (currentDepth this)
                                 then decode_depth line else currentDepth this)\<rparr>"
    and out: "out = (if c then notifications this
                       \<lparr>depth = decode_depth line, lines = Some (stored_array this line sc),
                        noLegalMoves = None\<rparr> else [])"
    by blast
  have depth': "currentDepth this' = (if c \<and> js_gt (decode_depth line) (currentDepth this)
                                 then decode_depth line else currentDepth this)"
    by (subst this') simp
  show ?thesis
  proof (cases "c \<and> js_gt (decode_depth line) (currentDepth this)")
    case True
    with depth' out show ?thesis by auto
  next
    case False
    with depth' show ?thesis by simp
  qed
qed

lemma process_line_depth:
  assumes "process_line this line = Inr (this', out)"
  shows "currentDepth this' = currentDepth this
         \<or> (js_gt (currentDepth this') (currentDepth this)
             \<and> (\<exists>arr. out = notifications this
                   \<lparr>depth = currentDepth this', lines = Some arr, noLegalMoves = None\<rparr>))"
proof -
  define this1 where "this1 = (if startsWith line ''bestmove'' then this\<lparr>state := Some Ready\<rparr> else this)"
  have same: "currentDepth this1 = currentDepth this" "notifications this1 = notifications this"
    by (simp_all add: this1_def notifications_def fun_eq_iff)
  show ?thesis
  proof (cases "state this1 = Some Ready \<and> startsWith line ''info'' \<and> str_includes line ''pv''")
    case True
    then have "process_line this line = processInfo this1 line"
      unfolding process_line_def this1_def Let_def by simp
    with assms processInfo_depth [of this1 line this' out] same show ?thesis by simp
  next
    case False
    then have "this' = this1"
      using assms unfolding process_line_def this1_def Let_def
      by (auto split: if_splits)
    with same show ?thesis by simp
  qed
qed

lemma process_lines_depth:
  "process_lines this ls = Inr (this', out) \<Longrightarrow> js_ge (currentDepth this') (currentDepth this)"
proof (induction ls arbitrary: this out)
  case Nil
  then show ?case by (simp add: js_ge_def)
next
  case (Cons line rest)
  from Cons.prems obtain this1 out1 out2 where
    step: "process_line this line = Inr (this1, out1)"
    and rest: "process_lines this1 rest = Inr (this', out2)"
    by (auto split: sum.splits prod.splits)
  from process_line_depth [OF step] have "js_ge (currentDepth this1) (currentDepth this)"
    by (auto simp: js_ge_def)
  with Cons.IH [OF rest] show ?case
    using js_ge_trans by blast
qed

lemma on_stdout_data_depth:
  assumes "on_stdout_data this chunk = Inr (this', out)"
  shows "js_ge (currentDepth this') (currentDepth this)"
proof -
  define full where "full = stockfishOutputBuffer this @ chunk"
  define this1 where "this1 = (if lastIndexOf_nl full 0 \<noteq> int (length full) - 1
                   then this\<lparr>stockfishOutputBuffer := buf_slice_from full (lastIndexOf_nl full 0 + 1)\<rparr>
                   else this\<lparr>stockfishOutputBuffer := []\<rparr>)"
  have "process_lines this1 (filter (\<lambda>line. 0 < length (trim line))
            (split CHR 0x0A (buf_slice full 0 (lastIndexOf_nl full 0)))) = Inr (this', out)"
    using assms unfolding on_stdout_data_def process_def this1_def full_def Let_def by simp
  from process_lines_depth [OF this] have "js_ge (currentDepth this') (currentDepth this1)" .
  moreover have "currentDepth this1 = currentDepth this"
    by (simp add: this1_def)
  ultimately show ?thesis by simp
qed

lemma on_stdout_chunks_depth:
  "on_stdout_chunks this chunks = Inr (this', out) \<Longrightarrow> js_ge (currentDepth this') (currentDepth this)"
proof (induction chunks arbitrary: this out)
  case Nil
  then show ?case by (simp add: js_ge_def)
next
  case (Cons chunk rest)
  from Cons.prems obtain this1 out1 out2 where
    step: "on_stdout_data this chunk = Inr (this1, out1)"
    and rest: "on_stdout_chunks this1 rest = Inr (this', out2)"
    by (auto split: sum.splits prod.splits)
  from on_stdout_data_depth [OF step] Cons.IH [OF rest] show ?case
    using js_ge_trans by blast
qed

lemma array_set_index:
  assumes "is_array_index k"
  shows "array_index k < length (elems (array_set a k v))"
    and "elems (array_set a k v) ! array_index k = Some v"
  using assms
  by (auto simp: array_set_def Let_def nth_append)

section \<open>Completion of a depth\<close>

text \<open>
  C4, as the code has it. The claim compares the number of populated ranks at the depth of
  the line with the number of populated ranks at depth 1; the code compares it with
  \<open>this.bestLines.get(1).length\<close>, the length of the array of depth 1, holes included.
  With that change the claim holds for every line that \<open>processInfo\<close> decodes and
  processes without an exception: the listeners are called, and \<open>currentDepth\<close> may
  advance, exactly when the populated count equals \<open>analysisOptions.lines\<close>, or the
  depth is above 1 and the populated count equals the length of the array of depth 1.
  The second part is the tie-break of the claim: three lines requested, two ranks
  reported at depth 1; at depth 5 nothing fires after the first rank, and the second rank
  completes the depth.
\<close>

theorem completion_test:
  assumes "has_fields line" and "decode_score line = Some sc"
    and "processInfo this line = Inr (this', out)"
  shows "(let d = decode_depth line;
              arr = the (map_of (bestLines this') d);
              n = populated arr;
              fired = (requested this n
                       \<or> (js_gt d (Num 1)
                           \<and> (\<exists>first. map_of (bestLines this') (Num 1) = Some first
                                       \<and> n = length (elems first))))
          in out = (if fired then notifications this \<lparr>depth = d, lines = Some arr, noLegalMoves = None\<rparr>
                    else [])
             \<and> currentDepth this' = (if fired \<and> js_gt d (currentDepth this) then d
                                      else currentDepth this))
       \<and> on_stdout_data (session white_fen (Some (Num 3)))
            (''info depth 1 multipv 1 score cp 30 pv e2e4\<newline>''
             @ ''info depth 1 multipv 2 score cp 20 pv d2d4\<newline>''
             @ ''info depth 5 multipv 1 score cp 35 pv e2e4 e7e5\<newline>'')
          = Inr (two_of_three, [])
       \<and> on_stdout_data two_of_three ''info depth 5 multipv 2 score cp 25 pv d2d4 d7d5\<newline>''
          = Inr (two_of_three
                   \<lparr>bestLines := [(Num 1, dense [exact_line (3 / 10) [''e2e4''],
                                                 exact_line (1 / 5) [''d2d4'']]),
                                  (Num 5, dense [exact_line (7 / 20) [''e2e4'', ''e7e5''],
                                                 exact_line (1 / 4) [''d2d4'', ''d7d5'']])],
                     currentDepth := Num 5\<rparr>,
                 [Notified 7 (completed 5 (dense [exact_line (7 / 20) [''e2e4'', ''e7e5''],
                                                  exact_line (1 / 4) [''d2d4'', ''d7d5'']]))])"
proof -
  have tie_break_1: "on_stdout_data (session white_fen (Some (Num 3)))
            (''info depth 1 multipv 1 score cp 30 pv e2e4\<newline>''
             @ ''info depth 1 multipv 2 score cp 20 pv d2d4\<newline>''
             @ ''info depth 5 multipv 1 score cp 35 pv e2e4 e7e5\<newline>'')
          = Inr (two_of_three, [])"
    by code_simp
  have tie_break_2: "on_stdout_data two_of_three ''info depth 5 multipv 2 score cp 25 pv d2d4 d7d5\<newline>''
          = Inr (two_of_three
                   \<lparr>bestLines := [(Num 1, dense [exact_line (3 / 10) [''e2e4''],
                                                 exact_line (1 / 5) [''d2d4'']]),
                                  (Num 5, dense [exact_line (7 / 20) [''e2e4'', ''e7e5''],
                                                 exact_line (1 / 4) [''d2d4'', ''d7d5'']])],
                     currentDepth := Num 5\<rparr>,
                 [Notified 7 (completed 5 (dense [exact_line (7 / 20) [''e2e4'', ''e7e5''],
                                                  exact_line (1 / 4) [''d2d4'', ''d7d5'']]))])"
    by code_simp
  from completion_general [OF assms] tie_break_1 tie_break_2 show ?thesis
    by (intro conjI)
qed

theorem completion_test_witness:
  "has_fields tie_break_line
   \<and> decode_score tie_break_line = Some \<lparr>score = Num (1 / 4), scoreType = Exact\<rparr>
   \<and> processInfo two_of_three tie_break_line
       = Inr (two_of_three_done,
              [Notified 7 (completed 5 (dense [exact_line (7 / 20) [''e2e4'', ''e7e5''],
                                               exact_line (1 / 4) [''d2d4'', ''d7d5'']]))])
   \<and> (let d = decode_depth tie_break_line;
           arr = the (map_of (bestLines two_of_three_done) d);
           n = populated arr;
           fired = (requested two_of_three n
                    \<or> (js_gt d (Num 1)
                        \<and> (\<exists>first. map_of (bestLines two_of_three_done) (Num 1) = Some first
                                    \<and> n = length (elems first))))
       in [Notified 7 (completed 5 (dense [exact_line (7 / 20) [''e2e4'', ''e7e5''],
                                           exact_line (1 / 4) [''d2d4'', ''d7d5'']]))]
            = (if fired
               then notifications two_of_three \<lparr>depth = d, lines = Some arr, noLegalMoves = None\<rparr>
               else [])
          \<and> currentDepth two_of_three_done
              = (if fired \<and> js_gt d (currentDepth two_of_three) then d
                 else currentDepth two_of_three))"
proof -
  have h1: "has_fields tie_break_line"
    by code_simp
  have h2: "decode_score tie_break_line = Some \<lparr>score = Num (1 / 4), scoreType = Exact\<rparr>"
    by code_simp
  have h3: "processInfo two_of_three tie_break_line
       = Inr (two_of_three_done,
              [Notified 7 (completed 5 (dense [exact_line (7 / 20) [''e2e4'', ''e7e5''],
                                               exact_line (1 / 4) [''d2d4'', ''d7d5'']]))])"
    by code_simp
  note general = completion_test [OF h1 h2 h3, THEN conjunct1]
  from h1 h2 h3 general show ?thesis
    by (intro conjI)
qed

text \<open>
  C4, as the claim states it, fails where the array of depth 1 has a hole. Three lines
  are requested and depth 1 reports rank 2 only: one rank is populated, the array has
  length 2. The first rank of depth 2 then gives a populated count of 1, equal to the
  populated count of depth 1, and the depth is above 1; the listener is not called and
  \<open>currentDepth\<close> stays 0.
\<close>

theorem completion_test_counterexample:
  "on_stdout_data (session white_fen (Some (Num 3)))
     ''info depth 1 multipv 2 score cp 10 pv d2d4\<newline>'' = Inr (only_second_rank, [])
   \<and> on_stdout_data only_second_rank ''info depth 2 multipv 1 score cp 10 pv e2e4\<newline>''
       = Inr (only_second_rank
                \<lparr>bestLines := [(Num 1, \<lparr>elems = [None, Some (exact_line (1 / 10) [''d2d4''])],
                                        props = []\<rparr>),
                               (Num 2, dense [exact_line (1 / 10) [''e2e4'']])]\<rparr>,
              [])
   \<and> analysisListeners only_second_rank = [7]
   \<and> currentDepth only_second_rank = Num 0
   \<and> js_gt (Num 2) (Num 1)
   \<and> populated (dense [exact_line (1 / 10) [''e2e4'']])
       = populated \<lparr>elems = [None, Some (exact_line (1 / 10) [''d2d4''])], props = []\<rparr>"
  by code_simp

section \<open>The perspective of a score\<close>

text \<open>
  C8. When the cached turn is black, the score that \<open>processInfo\<close> stores for a line, and
  hands to the listeners inside the array of the depth, is the decoded score with its
  magnitude negated. For the position after 1. e4, with black to move, a line with
  \<open>score cp 50\<close> decodes to 0.5 and is emitted as an exact score of -0.5.
\<close>

theorem black_to_move_negates_score:
  assumes "turn this = Some Black"
    and "has_fields line" and "decode_score line = Some sc"
    and "is_array_index (js_minus1 (decode_lineNumber line))"
    and "processInfo this line = Inr (this', out)"
  shows "(let d = decode_depth line;
              i = array_index (js_minus1 (decode_lineNumber line));
              arr = the (map_of (bestLines this') d)
          in i < length (elems arr)
             \<and> elems arr ! i
                 = Some \<lparr>line_score = \<lparr>score = js_negate (score sc), scoreType = scoreType sc\<rparr>,
                         moves = decode_moves line\<rparr>
             \<and> (\<forall>e \<in> set out. \<exists>listener.
                    e = Notified listener \<lparr>depth = d, lines = Some arr, noLegalMoves = None\<rparr>))
       \<and> turn (fst (setBoardstateByFen ready_instance black_fen)) = Some Black
       \<and> decode_score plus_50_line = Some \<lparr>score = Num (1 / 2), scoreType = Exact\<rparr>
       \<and> on_stdout_data (session black_fen (Some (Num 1))) (plus_50_line @ [CHR 0x0A])
          = Inr (plus_50_done,
                 [Notified 7 (completed 10 (dense [exact_line (- 1 / 2) [''e7e5'']]))])"
proof -
  from processInfo_stores [OF assms(5,2,3)] obtain c where
    at_d: "map_of (bestLines this') (decode_depth line) = Some (stored_array this line sc)"
    and out: "out = (if c then notifications this
                       \<lparr>depth = decode_depth line, lines = Some (stored_array this line sc),
                        noLegalMoves = None\<rparr> else [])"
    by blast
  have stored: "stored_array this line sc =
      array_set (previous_array this (decode_depth line)) (js_minus1 (decode_lineNumber line))
        \<lparr>line_score = \<lparr>score = js_negate (score sc), scoreType = scoreType sc\<rparr>,
         moves = decode_moves line\<rparr>"
  proof -
    have negated: "sc\<lparr>score := js_negate (score sc)\<rparr>
        = \<lparr>score = js_negate (score sc), scoreType = scoreType sc\<rparr>"
      by (cases sc) simp
    have "to_white_perspective (turn this) sc = sc\<lparr>score := js_negate (score sc)\<rparr>"
      using assms(1) by (simp add: to_white_perspective_def)
    then show ?thesis
      unfolding stored_array_def by (simp only: negated)
  qed
  have general: "let d = decode_depth line;
              i = array_index (js_minus1 (decode_lineNumber line));
              arr = the (map_of (bestLines this') d)
          in i < length (elems arr)
             \<and> elems arr ! i
                 = Some \<lparr>line_score = \<lparr>score = js_negate (score sc), scoreType = scoreType sc\<rparr>,
                         moves = decode_moves line\<rparr>
             \<and> (\<forall>e \<in> set out. \<exists>listener.
                    e = Notified listener \<lparr>depth = d, lines = Some arr, noLegalMoves = None\<rparr>)"
    unfolding Let_def at_d option.sel
    using array_set_index [OF assms(4)] out
    by (auto simp: stored notifications_def)
  have fen: "turn (fst (setBoardstateByFen ready_instance black_fen)) = Some Black"
    by code_simp
  have raw: "decode_score plus_50_line = Some \<lparr>score = Num (1 / 2), scoreType = Exact\<rparr>"
    by code_simp
  have run: "on_stdout_data (session black_fen (Some (Num 1))) (plus_50_line @ [CHR 0x0A])
          = Inr (plus_50_done,
                 [Notified 7 (completed 10 (dense [exact_line (- 1 / 2) [''e7e5'']]))])"
    by code_simp
  from general fen raw run show ?thesis
    by (intro conjI)
qed

theorem black_to_move_negates_score_witness:
  "turn (session black_fen (Some (Num 1))) = Some Black
   \<and> has_fields plus_50_line
   \<and> decode_score plus_50_line = Some \<lparr>score = Num (1 / 2), scoreType = Exact\<rparr>
   \<and> is_array_index (js_minus1 (decode_lineNumber plus_50_line))
   \<and> processInfo (session black_fen (Some (Num 1))) plus_50_line
       = Inr (plus_50_done, [Notified 7 (completed 10 (dense [exact_line (- 1 / 2) [''e7e5'']]))])
   \<and> (let d = decode_depth plus_50_line;
           i = array_index (js_minus1 (decode_lineNumber plus_50_line));
           arr = the (map_of (bestLines plus_50_done) d)
       in i < length (elems arr)
          \<and> elems arr ! i
              = Some \<lparr>line_score = \<lparr>score = js_negate (score \<lparr>score = Num (1 / 2), scoreType = Exact\<rparr>),
                                     scoreType = scoreType \<lparr>score = Num (1 / 2), scoreType = Exact\<rparr>\<rparr>,
                      moves = decode_moves plus_50_line\<rparr>
          \<and> (\<forall>e \<in> set [Notified 7 (completed 10 (dense [exact_line (- 1 / 2) [''e7e5'']]))].
                \<exists>listener.
                  e = Notified listener \<lparr>depth = d, lines = Some arr, noLegalMoves = None\<rparr>))"
proof -
  have h1: "turn (session black_fen (Some (Num 1))) = Some Black"
    by code_simp
  have h2: "has_fields plus_50_line"
    by code_simp
  have h3: "decode_score plus_50_line = Some \<lparr>score = Num (1 / 2), scoreType = Exact\<rparr>"
    by code_simp
  have h4: "is_array_index (js_minus1 (decode_lineNumber plus_50_line))"
    by code_simp
  have h5: "processInfo (session black_fen (Some (Num 1))) plus_50_line
       = Inr (plus_50_done, [Notified 7 (completed 10 (dense [exact_line (- 1 / 2) [''e7e5'']]))])"
    by code_simp
  note general = black_to_move_negates_score [OF h1 h2 h3 h4 h5, THEN conjunct1]
  from h1 h2 h3 h4 h5 general show ?thesis
    by (intro conjI)
qed

section \<open>The depth over a session\<close>

lemma initialise_currentDepth:
  assumes "a < length (heap w)"
  shows "currentDepth (obj (fst (initialise a new_id new_child w)) a) = Num 0"
  using assms by (simp add: initialise_def Let_def reset_def obj_def set_obj_def)

lemma on_exit_currentDepth:
  assumes "a < length (heap w)" and "state (obj w a) \<noteq> Some Terminated"
  shows "currentDepth (obj (fst (on_exit a code_signal new_id new_child w)) a) = Num 0"
proof -
  obtain w1 out1 where init: "initialise a new_id new_child w = (w1, out1)"
    by (cases "initialise a new_id new_child w")
  have len1: "a < length (heap w1)"
    using initialise_registers_idle(6) [OF assms(1) init] assms(1) by simp
  have zero: "currentDepth (obj w1 a) = Num 0"
    using initialise_currentDepth [OF assms(1), of new_id new_child] init by simp
  show ?thesis
  proof (cases "currentAnalysisOptions (obj w1 a)")
    case None
    with assms(2) init zero show ?thesis
      by (simp add: on_exit_def)
  next
    case (Some options)
    obtain this2 out2 where start: "startAnalysing (obj w1 a) options = (this2, out2)"
      by (cases "startAnalysing (obj w1 a) options")
    then have "currentDepth this2 = Num 0"
      by (auto simp: startAnalysing_def Let_def reset_def)
    with assms(2) init Some start len1 show ?thesis
      by (simp add: on_exit_def obj_set_obj_same)
  qed
qed

lemma terminate_currentDepth:
  assumes "a < length (heap w)"
  shows "currentDepth (obj (fst (terminate a w)) a) = currentDepth (obj w a)"
  using assms by (simp add: terminate_def Let_def obj_def set_obj_def)

lemma stopUsing_currentDepth:
  assumes "a < length (heap w)"
  shows "currentDepth (obj (fst (stopUsing a w)) a) = currentDepth (obj w a)"
  using assms by (simp add: stopUsing_def terminate_def Let_def obj_def set_obj_def)

lemma getInstance_currentDepth:
  assumes "b < length (heap w)"
  shows "currentDepth (obj (fst (snd (getInstance new_id new_child w))) b) = currentDepth (obj w b)"
  using assms
  by (simp add: getInstance_def new_StockfishInstance_def initialise_def Let_def obj_def
      set_obj_def nth_append split: prod.splits)

text \<open>
  C9, as the code has it. While the output of the engine is processed, \<open>currentDepth\<close>
  never falls: after any sequence of chunks it is what it was or greater, and one line
  changes it only by raising it to the depth of that line, together with the call of
  every listener for that depth. It falls only through \<open>reset\<close>, which sets it to 0 and
  runs in \<open>startAnalysing\<close> and in \<open>initialise\<close>, so at the start of every session, at
  construction, and in the restart after an unexpected exit of the engine, which may come
  in the middle of a session. No other method changes it.
\<close>

theorem currentDepth_lowered_only_by_reset:
  "(on_stdout_chunks this chunks = Inr (this', out)
      \<longrightarrow> js_ge (currentDepth this') (currentDepth this))
   \<and> (process_line this line = Inr (this1, out1) \<and> currentDepth this1 \<noteq> currentDepth this
      \<longrightarrow> js_gt (currentDepth this1) (currentDepth this)
          \<and> (\<exists>arr. out1 = notifications this
                 \<lparr>depth = currentDepth this1, lines = Some arr, noLegalMoves = None\<rparr>))
   \<and> currentDepth (fst (stopAnalysing this)) = currentDepth this
   \<and> currentDepth (fst (setBoardstateByFen this fen)) = currentDepth this
   \<and> currentDepth (fst (setBoardstateByMoves this mvs)) = currentDepth this
   \<and> currentDepth (onAnalysisData this listener) = currentDepth this
   \<and> currentDepth (reset this) = Num 0
   \<and> currentDepth (fst (startAnalysing this options)) = Num 0
   \<and> (a < length (heap w)
      \<longrightarrow> currentDepth (obj (fst (initialise a new_id new_child w)) a) = Num 0
          \<and> currentDepth (obj (fst (terminate a w)) a) = currentDepth (obj w a)
          \<and> currentDepth (obj (fst (stopUsing a w)) a) = currentDepth (obj w a)
          \<and> currentDepth (obj (fst (snd (getInstance new_id new_child w))) a)
              = currentDepth (obj w a))
   \<and> (a < length (heap w) \<and> state (obj w a) \<noteq> Some Terminated
      \<longrightarrow> currentDepth (obj (fst (on_exit a code_signal new_id new_child w)) a) = Num 0)
   \<and> (state (obj w a) = Some Terminated
      \<longrightarrow> on_exit a code_signal new_id new_child w = (w, []))"
proof -
  have chunks: "on_stdout_chunks this chunks = Inr (this', out)
      \<longrightarrow> js_ge (currentDepth this') (currentDepth this)"
    using on_stdout_chunks_depth by blast
  have one: "process_line this line = Inr (this1, out1) \<and> currentDepth this1 \<noteq> currentDepth this
      \<longrightarrow> js_gt (currentDepth this1) (currentDepth this)
          \<and> (\<exists>arr. out1 = notifications this
                 \<lparr>depth = currentDepth this1, lines = Some arr, noLegalMoves = None\<rparr>)"
    using process_line_depth [of this line this1 out1] by blast
  have others: "currentDepth (fst (stopAnalysing this)) = currentDepth this"
    "currentDepth (fst (setBoardstateByFen this fen)) = currentDepth this"
    "currentDepth (fst (setBoardstateByMoves this mvs)) = currentDepth this"
    "currentDepth (onAnalysisData this listener) = currentDepth this"
    "currentDepth (reset this) = Num 0"
    "currentDepth (fst (startAnalysing this options)) = Num 0"
    by (simp_all add: stopAnalysing_def setBoardstateByFen_def setBoardstateByMoves_def
        onAnalysisData_def reset_def startAnalysing_def Let_def)
  have pool: "a < length (heap w)
      \<longrightarrow> currentDepth (obj (fst (initialise a new_id new_child w)) a) = Num 0
          \<and> currentDepth (obj (fst (terminate a w)) a) = currentDepth (obj w a)
          \<and> currentDepth (obj (fst (stopUsing a w)) a) = currentDepth (obj w a)
          \<and> currentDepth (obj (fst (snd (getInstance new_id new_child w))) a)
              = currentDepth (obj w a)"
    using initialise_currentDepth terminate_currentDepth stopUsing_currentDepth
      getInstance_currentDepth by blast
  have restart: "a < length (heap w) \<and> state (obj w a) \<noteq> Some Terminated
      \<longrightarrow> currentDepth (obj (fst (on_exit a code_signal new_id new_child w)) a) = Num 0"
    using on_exit_currentDepth by blast
  have ignored: "state (obj w a) = Some Terminated
      \<longrightarrow> on_exit a code_signal new_id new_child w = (w, [])"
    by (simp add: on_exit_def)
  from chunks one others pool restart ignored show ?thesis
    by (intro conjI)
qed

theorem currentDepth_lowered_only_by_reset_witness:
  "on_stdout_chunks (session black_fen (Some (Num 1)))
       [''info depth 10 multipv 1 sco'', ''re cp 25 pv e7e5\<newline>'']
     = Inr (depth_10_done, [Notified 7 (completed 10 (dense [exact_line (- 1 / 4) [''e7e5'']]))])
   \<and> process_line (session black_fen (Some (Num 1))) depth_10_line
     = Inr (depth_10_done, [Notified 7 (completed 10 (dense [exact_line (- 1 / 4) [''e7e5'']]))])
   \<and> currentDepth depth_10_done \<noteq> currentDepth (session black_fen (Some (Num 1)))
   \<and> js_ge (currentDepth depth_10_done) (currentDepth (session black_fen (Some (Num 1))))
   \<and> js_gt (currentDepth depth_10_done) (currentDepth (session black_fen (Some (Num 1))))
   \<and> (\<exists>arr. [Notified 7 (completed 10 (dense [exact_line (- 1 / 4) [''e7e5'']]))]
          = notifications (session black_fen (Some (Num 1)))
              \<lparr>depth = currentDepth depth_10_done, lines = Some arr, noLegalMoves = None\<rparr>)
   \<and> 0 < length (heap pool_after_depth_10)
   \<and> state (obj pool_after_depth_10 0) \<noteq> Some Terminated
   \<and> currentDepth (obj (fst (on_exit 0 ''1 null'' ''2e'' 2 pool_after_depth_10)) 0) = Num 0
   \<and> currentDepth (obj (fst (initialise 0 ''2e'' 2 pool_after_depth_10)) 0) = Num 0
   \<and> currentDepth (obj (fst (stopUsing 0 pool_after_depth_10)) 0)
       = currentDepth (obj pool_after_depth_10 0)
   \<and> state (obj (fst (terminate 0 pool_after_depth_10)) 0) = Some Terminated
   \<and> on_exit 0 ''1 null'' ''2e'' 2 (fst (terminate 0 pool_after_depth_10))
       = (fst (terminate 0 pool_after_depth_10), [])"
proof -
  let ?start = "session black_fen (Some (Num 1))"
  let ?out = "[Notified 7 (completed 10 (dense [exact_line (- 1 / 4) [''e7e5'']]))]"
  let ?chunks = "[''info depth 10 multipv 1 sco'', ''re cp 25 pv e7e5\<newline>'']"
  have h1: "on_stdout_chunks ?start ?chunks = Inr (depth_10_done, ?out)"
    by code_simp
  have h2: "process_line ?start depth_10_line = Inr (depth_10_done, ?out)"
    by code_simp
  have h3: "currentDepth depth_10_done \<noteq> currentDepth ?start"
    by code_simp
  have h4: "0 < length (heap pool_after_depth_10)"
    by code_simp
  have h5: "state (obj pool_after_depth_10 0) \<noteq> Some Terminated"
    by code_simp
  have h6: "state (obj (fst (terminate 0 pool_after_depth_10)) 0) = Some Terminated"
    by code_simp
  note general = currentDepth_lowered_only_by_reset
    [where this = ?start and chunks = ?chunks and this' = depth_10_done and out = ?out
       and line = depth_10_line and ?this1.0 = depth_10_done and ?out1.0 = ?out
       and a = 0 and w = pool_after_depth_10 and code_signal = "''1 null''"
       and new_id = "''2e''" and new_child = 2]
  note dead = currentDepth_lowered_only_by_reset
    [where a = 0 and w = "fst (terminate 0 pool_after_depth_10)" and code_signal = "''1 null''"
       and new_id = "''2e''" and new_child = 2]
  from general h1 have c1: "js_ge (currentDepth depth_10_done) (currentDepth ?start)"
    by blast
  from general h2 h3 have c2: "js_gt (currentDepth depth_10_done) (currentDepth ?start)"
    and c3: "\<exists>arr. ?out = notifications ?start
              \<lparr>depth = currentDepth depth_10_done, lines = Some arr, noLegalMoves = None\<rparr>"
    by blast+
  from general h4 h5
  have c4: "currentDepth (obj (fst (on_exit 0 ''1 null'' ''2e'' 2 pool_after_depth_10)) 0) = Num 0"
    by blast
  from general h4
  have c5: "currentDepth (obj (fst (initialise 0 ''2e'' 2 pool_after_depth_10)) 0) = Num 0"
    and c6: "currentDepth (obj (fst (stopUsing 0 pool_after_depth_10)) 0)
       = currentDepth (obj pool_after_depth_10 0)"
    by blast+
  from dead h6
  have c7: "on_exit 0 ''1 null'' ''2e'' 2 (fst (terminate 0 pool_after_depth_10))
       = (fst (terminate 0 pool_after_depth_10), [])"
    by blast
  show ?thesis
    by (intro conjI h1 h2 h3 c1 c2 c3 h4 h5 c4 c5 c6 h6 c7)
qed

text \<open>
  C9, as the claim states it, fails in the middle of a session. The instance \<open>1f\<close> is
  analysing and has completed depth 10, so \<open>currentDepth\<close> is 10. Its engine exits;
  the handler calls \<open>initialise\<close> and replays \<open>startAnalysing\<close>, and \<open>currentDepth\<close> is 0
  again, with no listener called and no call by the user of the instance.
\<close>

theorem currentDepth_lowered_only_by_reset_counterexample:
  "on_stdout_data (onAnalysisData (obj pool_in_session 0) 7) (depth_10_line @ [CHR 0x0A])
     = Inr (depth_10_done, [Notified 7 (completed 10 (dense [exact_line (- 1 / 4) [''e7e5'']]))])
   \<and> currentDepth (obj pool_after_depth_10 0) = Num 10
   \<and> state (obj pool_after_depth_10 0) = Some Ready
   \<and> currentDepth (obj (fst (on_exit 0 ''1 null'' ''2e'' 2 pool_after_depth_10)) 0) = Num 0
   \<and> snd (on_exit 0 ''1 null'' ''2e'' 2 pool_after_depth_10)
       = [exited_early ''1 null'', Spawned 2, Written 2 Uci, Written 2 UciNewGame,
          Written 2 (SetMultiPV (Some (Num 1))), Written 2 GoInfinite]
   \<and> js_gt (Num 10) (Num 0)
   \<and> \<not> js_ge (Num 0) (Num 10)"
  by code_simp

section \<open>Lines that are dropped\<close>

lemma process_line_discards:
  assumes "dropped_line line"
  shows "\<exists>out. process_line this line = Inr (this, out) \<and> (\<forall>e \<in> set out. \<exists>s. e = Logged s)"
proof -
  from assms have nb: "\<not> startsWith line ''bestmove''"
    by (simp add: dropped_line_def)
  show ?thesis
  proof (cases "state this = Some Ready \<and> startsWith line ''info''")
    case False
    with nb have "process_line this line = Inr (this, [])"
      unfolding process_line_def Let_def by auto
    then show ?thesis by simp
  next
    case ready: True
    show ?thesis
    proof (cases "str_includes line ''pv''")
      case True
      with ready nb have eq: "process_line this line = processInfo this line"
        unfolding process_line_def Let_def by simp
      from True ready assms have "\<not> has_fields line \<or> decode_score line = None"
        by (simp add: dropped_line_def)
      from processInfo_discards [OF this, of this] eq show ?thesis by simp
    next
      case False
      with ready assms have none: "\<not> (str_includes line ''mate 0'' \<or> str_includes line ''cp 0'')"
        by (simp add: dropped_line_def)
      show ?thesis
      proof (cases "str_includes line ''currmove'' \<or> str_includes line ''NNUE evaluation''")
        case True
        with False ready nb none have "process_line this line = Inr (this, [])"
          unfolding process_line_def Let_def by simp
        then show ?thesis by simp
      next
        case other: False
        with False ready nb none have "process_line this line
            = Inr (this, [Logged ''[ Stockfish: not processed ]:'', Logged line])"
          unfolding process_line_def Let_def by simp
        then show ?thesis by simp
      qed
    qed
  qed
qed

lemma process_lines_discard:
  "\<forall>line \<in> set ls. dropped_line line \<Longrightarrow>
   \<exists>out. process_lines this ls = Inr (this, out) \<and> (\<forall>e \<in> set out. \<exists>s. e = Logged s)"
proof (induction ls)
  case Nil
  then show ?case by simp
next
  case (Cons line rest)
  then obtain out1 where one: "process_line this line = Inr (this, out1)"
    and log1: "\<forall>e \<in> set out1. \<exists>s. e = Logged s"
    using process_line_discards [of line this] by auto
  from Cons obtain out2 where more: "process_lines this rest = Inr (this, out2)"
    and log2: "\<forall>e \<in> set out2. \<exists>s. e = Logged s"
    by auto
  from one more have "process_lines this (line # rest) = Inr (this, out1 @ out2)"
    by simp
  with log1 log2 show ?case by auto
qed

text \<open>
  C5, as the code has it. The lines that the code drops are: a line that is neither the
  sentinel nor an info line; an info line with \<open>pv\<close> in it that lacks the marker of
  \<open>depth\<close>, \<open>multipv\<close> or \<open>score\<close>, or whose kind of score is none of the four known; an
  info line without \<open>pv\<close> that does not report a position without legal moves. A chunk
  in which every line is one of these is processed without an exception and leaves the
  instance as it was, \<open>bestLines\<close>, \<open>currentDepth\<close> and \<open>state\<close> included; all it does
  to the outside is print on the console: no listener is called and no process is
  killed. An info line with \<open>pv\<close> in it, the three markers and a known kind of score is
  not dropped, whatever stands in its fields: if processing it returns, it has been
  stored in \<open>bestLines\<close> under the number that its depth field converts to.
\<close>

theorem dropped_lines_change_nothing:
  "((\<forall>line \<in> set (split CHR 0x0A chunk). dropped_line line)
      \<longrightarrow> (\<exists>out. process this chunk = Inr (this, out) \<and> (\<forall>e \<in> set out. \<exists>s. e = Logged s)))
   \<and> (state this = Some Ready \<and> startsWith line ''info'' \<and> str_includes line ''pv''
        \<and> has_fields line \<and> decode_score line = Some sc
        \<and> process_line this line = Inr (this', out')
      \<longrightarrow> \<not> dropped_line line
          \<and> map_of (bestLines this') (decode_depth line) = Some (stored_array this line sc))"
proof -
  have dropped: "(\<forall>line \<in> set (split CHR 0x0A chunk). dropped_line line)
      \<longrightarrow> (\<exists>out. process this chunk = Inr (this, out) \<and> (\<forall>e \<in> set out. \<exists>s. e = Logged s))"
  proof
    assume "\<forall>line \<in> set (split CHR 0x0A chunk). dropped_line line"
    then have "\<forall>line \<in> set (filter (\<lambda>line. 0 < length (trim line)) (split CHR 0x0A chunk)).
        dropped_line line"
      by simp
    from process_lines_discard [OF this]
    show "\<exists>out. process this chunk = Inr (this, out) \<and> (\<forall>e \<in> set out. \<exists>s. e = Logged s)"
      by (simp add: process_def)
  qed
  have decoded: "state this = Some Ready \<and> startsWith line ''info'' \<and> str_includes line ''pv''
        \<and> has_fields line \<and> decode_score line = Some sc
        \<and> process_line this line = Inr (this', out')
      \<longrightarrow> \<not> dropped_line line
          \<and> map_of (bestLines this') (decode_depth line) = Some (stored_array this line sc)"
  proof (intro impI)
    assume all: "state this = Some Ready \<and> startsWith line ''info'' \<and> str_includes line ''pv''
        \<and> has_fields line \<and> decode_score line = Some sc
        \<and> process_line this line = Inr (this', out')"
    then have info: "startsWith line ''info''" by simp
    have nb: "\<not> startsWith line ''bestmove''"
    proof
      assume "startsWith line ''bestmove''"
      with info show False
        by (cases line) auto
    qed
    from all have ready: "state this = Some Ready" and pv: "str_includes line ''pv''"
      and step: "process_line this line = Inr (this', out')"
      by simp_all
    from step ready info pv nb have run: "processInfo this line = Inr (this', out')"
      unfolding process_line_def Let_def by simp
    from all have f: "has_fields line" and sc: "decode_score line = Some sc"
      by simp_all
    from processInfo_stores [OF run f sc]
    have stored: "map_of (bestLines this') (decode_depth line) = Some (stored_array this line sc)"
      by blast
    from all have "\<not> dropped_line line"
      by (simp add: dropped_line_def)
    with stored
    show "\<not> dropped_line line
        \<and> map_of (bestLines this') (decode_depth line) = Some (stored_array this line sc)"
      by simp
  qed
  from dropped decoded show ?thesis
    by (rule conjI)
qed

theorem dropped_lines_change_nothing_witness:
  "list_all dropped_line (split CHR 0x0A discarded_chunk)
   \<and> (\<exists>out. process (session black_fen (Some (Num 1))) discarded_chunk
              = Inr (session black_fen (Some (Num 1)), out)
            \<and> (\<forall>e \<in> set out. \<exists>s. e = Logged s))
   \<and> process (session black_fen (Some (Num 1))) discarded_chunk
       = Inr (session black_fen (Some (Num 1)),
              [Logged ''Stockfish: unknown score type: sideways'',
               Logged ''[ Stockfish: not processed ]:'',
               Logged ''info nodes 100 time 3''])
   \<and> state (session black_fen (Some (Num 1))) = Some Ready
   \<and> startsWith garbled_depth_line ''info''
   \<and> str_includes garbled_depth_line ''pv''
   \<and> has_fields garbled_depth_line
   \<and> decode_score garbled_depth_line = Some \<lparr>score = Num (1 / 4), scoreType = Exact\<rparr>
   \<and> process_line (session black_fen (Some (Num 1))) garbled_depth_line
       = Inr (garbled_depth_stored,
              [Notified 7 \<lparr>depth = NaN, lines = Some (dense [exact_line (- 1 / 4) [''e7e5'']]),
                           noLegalMoves = None\<rparr>])
   \<and> \<not> dropped_line garbled_depth_line
   \<and> map_of (bestLines garbled_depth_stored) (decode_depth garbled_depth_line)
       = Some (stored_array (session black_fen (Some (Num 1))) garbled_depth_line
                 \<lparr>score = Num (1 / 4), scoreType = Exact\<rparr>)"
proof -
  let ?start = "session black_fen (Some (Num 1))"
  let ?out = "[Notified 7 \<lparr>depth = NaN, lines = Some (dense [exact_line (- 1 / 4) [''e7e5'']]),
                           noLegalMoves = None\<rparr>]"
  have every: "list_all dropped_line (split CHR 0x0A discarded_chunk)"
    by code_simp
  then have h: "\<forall>line \<in> set (split CHR 0x0A discarded_chunk). dropped_line line"
    by (simp add: list_all_iff)
  have run: "process ?start discarded_chunk
       = Inr (?start,
              [Logged ''Stockfish: unknown score type: sideways'',
               Logged ''[ Stockfish: not processed ]:'',
               Logged ''info nodes 100 time 3''])"
    by code_simp
  have g1: "state ?start = Some Ready"
    and g2: "startsWith garbled_depth_line ''info''"
    and g3: "str_includes garbled_depth_line ''pv''"
    and g4: "has_fields garbled_depth_line"
    and g5: "decode_score garbled_depth_line = Some \<lparr>score = Num (1 / 4), scoreType = Exact\<rparr>"
    and g6: "process_line ?start garbled_depth_line = Inr (garbled_depth_stored, ?out)"
    by code_simp+
  note general = dropped_lines_change_nothing
    [where chunk = discarded_chunk and this = ?start and line = garbled_depth_line
       and sc = "\<lparr>score = Num (1 / 4), scoreType = Exact\<rparr>"
       and this' = garbled_depth_stored and out' = ?out]
  from general h
  have c1: "\<exists>out. process ?start discarded_chunk = Inr (?start, out)
      \<and> (\<forall>e \<in> set out. \<exists>s. e = Logged s)"
    by blast
  from general g1 g2 g3 g4 g5 g6
  have c2: "\<not> dropped_line garbled_depth_line"
    and c3: "map_of (bestLines garbled_depth_stored) (decode_depth garbled_depth_line)
       = Some (stored_array ?start garbled_depth_line \<lparr>score = Num (1 / 4), scoreType = Exact\<rparr>)"
    by blast+
  show ?thesis
    by (intro conjI every c1 run g1 g2 g3 g4 g5 g6 c2 c3)
qed

text \<open>
  C5, as the claim states it, fails on a malformed line that has the three markers: the
  depth field below is not a number. The line converts to depth NaN, is stored in
  \<open>bestLines\<close> under that key, and the listener is called with it.
\<close>

theorem dropped_lines_change_nothing_counterexample:
  "process (session black_fen (Some (Num 1))) garbled_depth_line
     = Inr (garbled_depth_stored,
            [Notified 7 \<lparr>depth = NaN, lines = Some (dense [exact_line (- 1 / 4) [''e7e5'']]),
                         noLegalMoves = None\<rparr>])
   \<and> bestLines (session black_fen (Some (Num 1))) = []
   \<and> bestLines garbled_depth_stored = [(NaN, dense [exact_line (- 1 / 4) [''e7e5'']])]"
  by code_simp

text \<open>
  A line with the marker of \<open>multipv\<close> and no rank after it is not dropped either. In the
  same session its rank converts to NaN, nothing is populated at depth 5, and the test
  for completion reads \<open>length\<close> of the missing entry for depth 1: the handler throws.
\<close>

lemma missing_rank_value_throws:
  "has_fields missing_rank_line
   \<and> decode_lineNumber missing_rank_line = NaN
   \<and> process (session black_fen (Some (Num 1))) missing_rank_line = Inl TypeError"
  by code_simp

section \<open>Positions without legal moves\<close>

lemma processInfo_never_reports_no_legal_moves:
  assumes "processInfo this line = Inr (this', out)"
  shows "Notified listener no_legal_moves \<notin> set out"
proof (cases "has_fields line \<and> decode_score line \<noteq> None")
  case False
  then have "\<not> has_fields line \<or> decode_score line = None" by simp
  from processInfo_discards [OF this, of this] assms show ?thesis by auto
next
  case True
  then obtain sc where sc: "decode_score line = Some sc" and f: "has_fields line" by auto
  from processInfo_stores [OF assms f sc] obtain c where
    out: "out = (if c then notifications this
                       \<lparr>depth = decode_depth line, lines = Some (stored_array this line sc),
                        noLegalMoves = None\<rparr> else [])"
    by blast
  then show ?thesis
    by (auto simp: notifications_def no_legal_moves_def)
qed

text \<open>
  C6, as the code has it. While the instance is ready, an info line takes the path of
  \<open>processNoLegalMoves\<close>, where every listener is called with depth 0, no lines and the
  flag \<open>noLegalMoves\<close>, exactly when it does not contain \<open>pv\<close> and contains \<open>mate 0\<close> or
  \<open>cp 0\<close>: one of the two markers is enough. Such a line leaves the instance as it was;
  no other line makes a listener receive that analysis.
\<close>

theorem no_legal_moves_routing:
  assumes "state this = Some Ready" and "startsWith line ''info''"
  shows "(\<not> str_includes line ''pv''
            \<and> (str_includes line ''mate 0'' \<or> str_includes line ''cp 0'')
          \<longrightarrow> process_line this line = Inr (this, notifications this no_legal_moves))
       \<and> (\<not> (\<not> str_includes line ''pv''
               \<and> (str_includes line ''mate 0'' \<or> str_includes line ''cp 0''))
          \<longrightarrow> (\<forall>this' out listener. process_line this line = Inr (this', out)
                  \<longrightarrow> Notified listener no_legal_moves \<notin> set out))"
proof -
  have nb: "\<not> startsWith line ''bestmove''"
  proof
    assume "startsWith line ''bestmove''"
    with assms(2) show False
      by (cases line) auto
  qed
  have routed: "\<not> str_includes line ''pv''
            \<and> (str_includes line ''mate 0'' \<or> str_includes line ''cp 0'')
          \<longrightarrow> process_line this line = Inr (this, notifications this no_legal_moves)"
    using assms nb
    unfolding process_line_def processNoLegalMoves_def notifications_def no_legal_moves_def Let_def
    by simp
  have not_routed: "\<not> (\<not> str_includes line ''pv''
               \<and> (str_includes line ''mate 0'' \<or> str_includes line ''cp 0''))
          \<longrightarrow> (\<forall>this' out listener. process_line this line = Inr (this', out)
                  \<longrightarrow> Notified listener no_legal_moves \<notin> set out)"
  proof (intro impI allI)
    fix this' out listener
    assume other: "\<not> (\<not> str_includes line ''pv''
               \<and> (str_includes line ''mate 0'' \<or> str_includes line ''cp 0''))"
      and run: "process_line this line = Inr (this', out)"
    show "Notified listener no_legal_moves \<notin> set out"
    proof (cases "str_includes line ''pv''")
      case True
      with assms nb run have "processInfo this line = Inr (this', out)"
        unfolding process_line_def Let_def by simp
      from processInfo_never_reports_no_legal_moves [OF this] show ?thesis .
    next
      case False
      with other have "\<not> (str_includes line ''mate 0'' \<or> str_includes line ''cp 0'')"
        by simp
      with False assms nb run show ?thesis
        unfolding process_line_def Let_def
        by (auto split: if_splits)
    qed
  qed
  from routed not_routed show ?thesis
    by (rule conjI)
qed

theorem no_legal_moves_routing_witness:
  "state (session black_fen (Some (Num 1))) = Some Ready
   \<and> startsWith ''info depth 0 score mate 0'' ''info''
   \<and> \<not> str_includes ''info depth 0 score mate 0'' ''pv''
   \<and> str_includes ''info depth 0 score mate 0'' ''mate 0''
   \<and> process_line (session black_fen (Some (Num 1))) ''info depth 0 score mate 0''
       = Inr (session black_fen (Some (Num 1)),
              notifications (session black_fen (Some (Num 1))) no_legal_moves)"
proof -
  have h1: "state (session black_fen (Some (Num 1))) = Some Ready"
    by code_simp
  have h2: "startsWith ''info depth 0 score mate 0'' ''info''"
    by code_simp
  have h3: "\<not> str_includes ''info depth 0 score mate 0'' ''pv''"
    by code_simp
  have h4: "str_includes ''info depth 0 score mate 0'' ''mate 0''"
    by code_simp
  from no_legal_moves_routing [OF h1 h2, THEN conjunct1] h3 h4
  have routed: "process_line (session black_fen (Some (Num 1))) ''info depth 0 score mate 0''
       = Inr (session black_fen (Some (Num 1)),
              notifications (session black_fen (Some (Num 1))) no_legal_moves)"
    by blast
  show ?thesis
    by (rule conjI [OF h1 conjI [OF h2 conjI [OF h3 conjI [OF h4 routed]]]])
qed

text \<open>
  C6, as the claim states it, fails on the line that Stockfish prints for a stalemate:
  it has a score of zero centipawns and no mate marker at all, and the listener is
  called with the analysis for no legal moves.
\<close>

theorem no_legal_moves_routing_counterexample:
  "state (session black_fen (Some (Num 1))) = Some Ready
   \<and> startsWith stalemate_line ''info''
   \<and> \<not> str_includes stalemate_line ''mate''
   \<and> process_line (session black_fen (Some (Num 1))) stalemate_line
       = Inr (session black_fen (Some (Num 1)), [Notified 7 no_legal_moves])"
  by code_simp

section \<open>The flag hasStarted\<close>

lemma processInfo_fields:
  assumes "processInfo this line = Inr (this', out)"
  shows "\<exists>bl cd. this' = this\<lparr>bestLines := bl, currentDepth := cd\<rparr>"
proof (cases "has_fields line \<and> decode_score line \<noteq> None")
  case False
  then have "\<not> has_fields line \<or> decode_score line = None" by simp
  from processInfo_discards [OF this, of this] assms have "this' = this" by auto
  then have "this' = this\<lparr>bestLines := bestLines this, currentDepth := currentDepth this\<rparr>"
    by simp
  then show ?thesis by blast
next
  case True
  then obtain sc where sc: "decode_score line = Some sc" and f: "has_fields line" by auto
  from processInfo_stores [OF assms f sc] show ?thesis by blast
qed

lemma process_line_hasStarted:
  assumes "process_line this line = Inr (this', out)"
  shows "hasStarted this' = hasStarted this"
proof -
  define this1 where "this1 = (if startsWith line ''bestmove'' then this\<lparr>state := Some Ready\<rparr> else this)"
  have same: "hasStarted this1 = hasStarted this"
    by (simp add: this1_def)
  show ?thesis
  proof (cases "state this1 = Some Ready \<and> startsWith line ''info'' \<and> str_includes line ''pv''")
    case True
    then have "processInfo this1 line = Inr (this', out)"
      using assms unfolding process_line_def this1_def Let_def by simp
    from processInfo_fields [OF this] same show ?thesis by auto
  next
    case False
    then have "this' = this1"
      using assms unfolding process_line_def this1_def Let_def
      by (auto split: if_splits)
    with same show ?thesis by simp
  qed
qed

lemma process_lines_hasStarted:
  "process_lines this ls = Inr (this', out) \<Longrightarrow> hasStarted this' = hasStarted this"
proof (induction ls arbitrary: this out)
  case Nil
  then show ?case by simp
next
  case (Cons line rest)
  from Cons.prems obtain this1 out1 out2 where
    step: "process_line this line = Inr (this1, out1)"
    and rest: "process_lines this1 rest = Inr (this', out2)"
    by (auto split: sum.splits prod.splits)
  from process_line_hasStarted [OF step] Cons.IH [OF rest] show ?case by simp
qed

lemma on_stdout_data_hasStarted:
  assumes "on_stdout_data this chunk = Inr (this', out)"
  shows "hasStarted this' = hasStarted this"
proof -
  define full where "full = stockfishOutputBuffer this @ chunk"
  define this1 where "this1 = (if lastIndexOf_nl full 0 \<noteq> int (length full) - 1
                   then this\<lparr>stockfishOutputBuffer := buf_slice_from full (lastIndexOf_nl full 0 + 1)\<rparr>
                   else this\<lparr>stockfishOutputBuffer := []\<rparr>)"
  have "process_lines this1 (filter (\<lambda>line. 0 < length (trim line))
            (split CHR 0x0A (buf_slice full 0 (lastIndexOf_nl full 0)))) = Inr (this', out)"
    using assms unfolding on_stdout_data_def process_def this1_def full_def Let_def by simp
  from process_lines_hasStarted [OF this] have "hasStarted this' = hasStarted this1" .
  moreover have "hasStarted this1 = hasStarted this"
    by (simp add: this1_def)
  ultimately show ?thesis by simp
qed

text \<open>
  C7, as the code has it. \<open>hasStarted\<close> is false in a new instance and true after
  \<open>startAnalysing\<close>; nothing sets it back to false: \<open>stopAnalysing\<close> leaves it as it is,
  and so do \<open>reset\<close>, the two \<open>setBoardstate\<close> methods, \<open>onAnalysisData\<close>, the processing
  of output and \<open>initialise\<close>. While it is false, \<open>stopAnalysing\<close> writes nothing to the
  engine and changes no field but \<open>currentAnalysisOptions\<close>, which it sets to \<open>null\<close>;
  where that field holds no configuration the instance is left exactly as it was.
\<close>

theorem hasStarted_is_never_cleared:
  "hasStarted blank_instance = False
   \<and> hasStarted (fst (startAnalysing this options)) = True
   \<and> hasStarted (fst (stopAnalysing this)) = hasStarted this
   \<and> (\<not> hasStarted this \<longrightarrow> stopAnalysing this = (this\<lparr>currentAnalysisOptions := None\<rparr>, []))
   \<and> (\<not> hasStarted this \<and> currentAnalysisOptions this = None \<longrightarrow> stopAnalysing this = (this, []))
   \<and> hasStarted (reset this) = hasStarted this
   \<and> hasStarted (fst (setBoardstateByFen this fen)) = hasStarted this
   \<and> hasStarted (fst (setBoardstateByMoves this mvs)) = hasStarted this
   \<and> hasStarted (onAnalysisData this listener) = hasStarted this
   \<and> (on_stdout_data this chunk = Inr (this', out) \<longrightarrow> hasStarted this' = hasStarted this)
   \<and> (a < length (heap w) \<longrightarrow>
        hasStarted (obj (fst (initialise a new_id new_child w)) a) = hasStarted (obj w a))"
proof -
  have new: "hasStarted blank_instance = False"
    by (simp add: blank_instance_def)
  have start: "hasStarted (fst (startAnalysing this options)) = True"
    by (simp add: startAnalysing_def Let_def reset_def)
  have stop: "hasStarted (fst (stopAnalysing this)) = hasStarted this"
    by (simp add: stopAnalysing_def Let_def)
  have noop: "\<not> hasStarted this \<longrightarrow> stopAnalysing this = (this\<lparr>currentAnalysisOptions := None\<rparr>, [])"
    by (simp add: stopAnalysing_def Let_def)
  have noop': "\<not> hasStarted this \<and> currentAnalysisOptions this = None \<longrightarrow> stopAnalysing this = (this, [])"
    by (simp add: stopAnalysing_def Let_def)
  have others: "hasStarted (reset this) = hasStarted this"
    "hasStarted (fst (setBoardstateByFen this fen)) = hasStarted this"
    "hasStarted (fst (setBoardstateByMoves this mvs)) = hasStarted this"
    "hasStarted (onAnalysisData this listener) = hasStarted this"
    by (simp_all add: reset_def setBoardstateByFen_def setBoardstateByMoves_def
        onAnalysisData_def Let_def)
  have processed: "on_stdout_data this chunk = Inr (this', out) \<longrightarrow> hasStarted this' = hasStarted this"
    using on_stdout_data_hasStarted by blast
  have init: "a < length (heap w) \<longrightarrow>
        hasStarted (obj (fst (initialise a new_id new_child w)) a) = hasStarted (obj w a)"
  proof
    assume len: "a < length (heap w)"
    obtain w' out' where run: "initialise a new_id new_child w = (w', out')"
      by (cases "initialise a new_id new_child w")
    from initialise_registers_idle(7) [OF len run] run
    show "hasStarted (obj (fst (initialise a new_id new_child w)) a) = hasStarted (obj w a)"
      by simp
  qed
  from new start stop noop noop' others processed init show ?thesis
    by (intro conjI)
qed

theorem hasStarted_is_never_cleared_witness:
  "\<not> hasStarted ready_instance
   \<and> currentAnalysisOptions ready_instance = None
   \<and> stopAnalysing ready_instance = (ready_instance, [])
   \<and> on_stdout_data (session black_fen (Some (Num 1))) (depth_10_line @ [CHR 0x0A])
       = Inr (depth_10_done, [Notified 7 (completed 10 (dense [exact_line (- 1 / 4) [''e7e5'']]))])
   \<and> hasStarted depth_10_done = hasStarted (session black_fen (Some (Num 1)))
   \<and> 0 < length (heap pool_in_session)
   \<and> hasStarted (obj (fst (initialise 0 ''2e'' 2 pool_in_session)) 0)
       = hasStarted (obj pool_in_session 0)"
proof -
  have h1: "\<not> hasStarted ready_instance"
    by code_simp
  have h2: "currentAnalysisOptions ready_instance = None"
    by code_simp
  have h3: "on_stdout_data (session black_fen (Some (Num 1))) (depth_10_line @ [CHR 0x0A])
       = Inr (depth_10_done, [Notified 7 (completed 10 (dense [exact_line (- 1 / 4) [''e7e5'']]))])"
    by code_simp
  have h4: "0 < length (heap pool_in_session)"
    by code_simp
  from hasStarted_is_never_cleared [where this = ready_instance] h1 h2
  have c1: "stopAnalysing ready_instance = (ready_instance, [])"
    by blast
  from hasStarted_is_never_cleared [where this = "session black_fen (Some (Num 1))"
      and chunk = "depth_10_line @ [CHR 0x0A]" and this' = depth_10_done
      and out = "[Notified 7 (completed 10 (dense [exact_line (- 1 / 4) [''e7e5'']]))]"
      and a = 0 and w = pool_in_session and new_id = "''2e''" and new_child = 2] h3 h4
  have c2: "hasStarted depth_10_done = hasStarted (session black_fen (Some (Num 1)))"
    and c3: "hasStarted (obj (fst (initialise 0 ''2e'' 2 pool_in_session)) 0)
       = hasStarted (obj pool_in_session 0)"
    by blast+
  show ?thesis
    by (rule conjI [OF h1 conjI [OF h2 conjI [OF c1 conjI [OF h3 conjI [OF c2 conjI [OF h4 c3]]]]]])
qed

text \<open>
  C7, as the claim states it, fails after the first stop: the claim has \<open>hasStarted\<close>
  cleared by an explicit stop, and it is still true after \<open>startAnalysing\<close> followed by
  \<open>stopAnalysing\<close>. The stop did clear the recorded configuration.
\<close>

theorem hasStarted_is_never_cleared_counterexample:
  "hasStarted (fst (stopAnalysing (session black_fen (Some (Num 1))))) = True
   \<and> currentAnalysisOptions (fst (stopAnalysing (session black_fen (Some (Num 1))))) = None
   \<and> state (fst (stopAnalysing (session black_fen (Some (Num 1))))) = Some Stopping"
  by code_simp

section \<open>Reassembly of lines from chunks\<close>

text \<open>
  C3. The claim: a line delivered in two chunks, split inside the line, has the same
  effect as the line delivered in one chunk. The code does otherwise. A chunk without a
  line feed gives \<open>lastNewline = -1\<close>; the chunk is kept in the buffer, as it should, but
  \<open>chunk.slice(0, -1)\<close>, the chunk without its last byte, is also passed to \<open>process\<close>.
  Below, an info line for a session with one requested line is split inside its move:
  the listener is first called with the move \<open>e\<close>, then with the move \<open>e7e5\<close>, where the
  line in one chunk calls it once.
\<close>

theorem split_line_notifies_listener_twice:
  "on_stdout_chunks (session black_fen (Some (Num 1)))
     [''info depth 10 multipv 1 score cp 25 pv e7e5\<newline>'']
   = Inr ((session black_fen (Some (Num 1)))
            \<lparr>bestLines := [(Num 10, dense [exact_line (- 1 / 4) [''e7e5'']])],
             currentDepth := Num 10\<rparr>,
          [Notified 7 (completed 10 (dense [exact_line (- 1 / 4) [''e7e5'']]))])
   \<and> on_stdout_chunks (session black_fen (Some (Num 1)))
     [''info depth 10 multipv 1 score cp 25 pv e7'', ''e5\<newline>'']
   = Inr ((session black_fen (Some (Num 1)))
            \<lparr>bestLines := [(Num 10, dense [exact_line (- 1 / 4) [''e7e5'']])],
             currentDepth := Num 10\<rparr>,
          [Notified 7 (completed 10 (dense [exact_line (- 1 / 4) [''e'']])),
           Notified 7 (completed 10 (dense [exact_line (- 1 / 4) [''e7e5'']]))])"
  by code_simp

section \<open>The query\<close>

lemma on_stdout_data_unfold:
  "on_stdout_data this chunk
     = process_lines
         (this\<lparr>stockfishOutputBuffer := next_buffer (stockfishOutputBuffer this) chunk\<rparr>)
         (filter (\<lambda>line. 0 < length (trim line))
            (split CHR 0x0A (ready_text (stockfishOutputBuffer this) chunk)))"
  unfolding on_stdout_data_def process_def next_buffer_def ready_text_def Let_def
  by simp

lemma process_line_fields:
  assumes "process_line this line = Inr (this', out)"
  shows "\<exists>bl cd st. this' = this\<lparr>bestLines := bl, currentDepth := cd, state := st\<rparr>"
proof -
  define this1 where "this1 = (if startsWith line ''bestmove'' then this\<lparr>state := Some Ready\<rparr> else this)"
  have start: "this1 = this\<lparr>bestLines := bestLines this, currentDepth := currentDepth this,
      state := state this1\<rparr>"
    by (simp add: this1_def)
  show ?thesis
  proof (cases "state this1 = Some Ready \<and> startsWith line ''info'' \<and> str_includes line ''pv''")
    case True
    then have "processInfo this1 line = Inr (this', out)"
      using assms unfolding process_line_def this1_def Let_def by simp
    from processInfo_fields [OF this] obtain bl cd
      where "this' = this1\<lparr>bestLines := bl, currentDepth := cd\<rparr>" by blast
    then have "this' = this\<lparr>bestLines := bl, currentDepth := cd, state := state this1\<rparr>"
      by (subst (asm) start) simp
    then show ?thesis by blast
  next
    case False
    then have "this' = this1"
      using assms unfolding process_line_def this1_def Let_def
      by (auto split: if_splits)
    with start show ?thesis by metis
  qed
qed

lemma process_lines_buffer:
  "process_lines this ls = Inr (this', out)
   \<Longrightarrow> stockfishOutputBuffer this' = stockfishOutputBuffer this"
proof (induction ls arbitrary: this out)
  case Nil
  then show ?case by simp
next
  case (Cons line rest)
  from Cons.prems obtain this1 out1 out2 where
    step: "process_line this line = Inr (this1, out1)"
    and rest: "process_lines this1 rest = Inr (this', out2)"
    by (auto split: sum.splits prod.splits)
  from process_line_fields [OF step] have "stockfishOutputBuffer this1 = stockfishOutputBuffer this"
    by auto
  with Cons.IH [OF rest] show ?case by simp
qed

lemma processInfo_no_depth_0:
  assumes "processInfo this line = Inr (this', out)"
    and "map_of (bestLines this) (Num 0) = None"
    and "has_fields line \<longrightarrow> decode_depth line \<noteq> Num 0"
  shows "map_of (bestLines this') (Num 0) = None"
proof (cases "has_fields line \<and> decode_score line \<noteq> None")
  case False
  then have "\<not> has_fields line \<or> decode_score line = None" by simp
  from processInfo_discards [OF this, of this] assms(1) have "this' = this" by auto
  with assms(2) show ?thesis by simp
next
  case True
  then obtain sc where sc: "decode_score line = Some sc" and f: "has_fields line" by auto
  from processInfo_stores [OF assms(1) f sc]
  have "\<forall>k. k \<noteq> decode_depth line \<longrightarrow> map_of (bestLines this') k = map_of (bestLines this) k"
    by blast
  with assms(2,3) f show ?thesis by metis
qed

lemma process_line_no_depth_0:
  assumes "process_line this line = Inr (this', out)"
    and "map_of (bestLines this) (Num 0) = None"
    and "has_fields line \<longrightarrow> decode_depth line \<noteq> Num 0"
  shows "map_of (bestLines this') (Num 0) = None"
proof -
  define this1 where "this1 = (if startsWith line ''bestmove'' then this\<lparr>state := Some Ready\<rparr> else this)"
  have same: "bestLines this1 = bestLines this"
    by (simp add: this1_def)
  show ?thesis
  proof (cases "state this1 = Some Ready \<and> startsWith line ''info'' \<and> str_includes line ''pv''")
    case True
    then have "processInfo this1 line = Inr (this', out)"
      using assms(1) unfolding process_line_def this1_def Let_def by simp
    from processInfo_no_depth_0 [OF this] assms(2,3) same show ?thesis by simp
  next
    case False
    then have "this' = this1"
      using assms(1) unfolding process_line_def this1_def Let_def
      by (auto split: if_splits)
    with same assms(2) show ?thesis by simp
  qed
qed

lemma process_lines_no_depth_0:
  "process_lines this ls = Inr (this', out)
   \<Longrightarrow> map_of (bestLines this) (Num 0) = None
   \<Longrightarrow> \<forall>line \<in> set ls. has_fields line \<longrightarrow> decode_depth line \<noteq> Num 0
   \<Longrightarrow> map_of (bestLines this') (Num 0) = None"
proof (induction ls arbitrary: this out)
  case Nil
  then show ?case by simp
next
  case (Cons line rest)
  from Cons.prems(1) obtain this1 out1 out2 where
    step: "process_line this line = Inr (this1, out1)"
    and rest: "process_lines this1 rest = Inr (this', out2)"
    by (auto split: sum.splits prod.splits)
  from Cons.prems(3) have here: "has_fields line \<longrightarrow> decode_depth line \<noteq> Num 0"
    and later: "\<forall>line \<in> set rest. has_fields line \<longrightarrow> decode_depth line \<noteq> Num 0"
    by simp_all
  from process_line_no_depth_0 [OF step Cons.prems(2) here]
  have "map_of (bestLines this1) (Num 0) = None" .
  from Cons.IH [OF rest this later] show ?case .
qed

lemma on_stdout_chunks_no_depth_0:
  "on_stdout_chunks this chunks = Inr (this', out)
   \<Longrightarrow> map_of (bestLines this) (Num 0) = None
   \<Longrightarrow> \<forall>line \<in> set (processed_lines (stockfishOutputBuffer this) chunks).
         has_fields line \<longrightarrow> decode_depth line \<noteq> Num 0
   \<Longrightarrow> map_of (bestLines this') (Num 0) = None"
proof (induction chunks arbitrary: this out)
  case Nil
  then show ?case by simp
next
  case (Cons chunk rest)
  from Cons.prems(1) obtain this1 out1 out2 where
    step: "on_stdout_data this chunk = Inr (this1, out1)"
    and rest: "on_stdout_chunks this1 rest = Inr (this', out2)"
    by (auto split: sum.splits prod.splits)
  let ?buffered = "this\<lparr>stockfishOutputBuffer := next_buffer (stockfishOutputBuffer this) chunk\<rparr>"
  let ?ls = "filter (\<lambda>line. 0 < length (trim line))
            (split CHR 0x0A (ready_text (stockfishOutputBuffer this) chunk))"
  from step have run: "process_lines ?buffered ?ls = Inr (this1, out1)"
    by (simp only: on_stdout_data_unfold)
  from Cons.prems(3) have here: "\<forall>line \<in> set ?ls. has_fields line \<longrightarrow> decode_depth line \<noteq> Num 0"
    and later: "\<forall>line \<in> set (processed_lines (next_buffer (stockfishOutputBuffer this) chunk) rest).
         has_fields line \<longrightarrow> decode_depth line \<noteq> Num 0"
    by auto
  have start: "map_of (bestLines ?buffered) (Num 0) = None"
    using Cons.prems(2) by simp
  from process_lines_no_depth_0 [OF run start here]
  have none1: "map_of (bestLines this1) (Num 0) = None" .
  from process_lines_buffer [OF run]
  have "stockfishOutputBuffer this1 = next_buffer (stockfishOutputBuffer this) chunk"
    by simp
  with later have later1: "\<forall>line \<in> set (processed_lines (stockfishOutputBuffer this1) rest).
         has_fields line \<longrightarrow> decode_depth line \<noteq> Num 0"
    by simp
  from Cons.IH [OF rest none1 later1] show ?case .
qed

text \<open>
  C10, as the code has it. \<open>getCurrentBestLines\<close> returns \<open>currentDepth\<close> and
  \<open>bestLines.get(currentDepth)\<close>. After \<open>reset\<close>, and so after \<open>startAnalysing\<close>, that is
  depth 0 and no lines at all; \<open>stopAnalysing\<close>, the two \<open>setBoardstate\<close> methods and
  \<open>onAnalysisData\<close> leave \<open>bestLines\<close> as it is. From a state without an entry for depth
  0, after any chunks of output in which no line with the three markers has a depth field
  that converts to 0, the answer is still depth 0 and no lines as long as \<open>currentDepth\<close>
  is 0, that is, until a depth above 0 completes.
\<close>

theorem getCurrentBestLines_before_first_completion:
  assumes "map_of (bestLines this) (Num 0) = None"
    and "on_stdout_chunks this chunks = Inr (this', out)"
    and "\<forall>line \<in> set (processed_lines (stockfishOutputBuffer this) chunks).
           has_fields line \<longrightarrow> decode_depth line \<noteq> Num 0"
    and "currentDepth this' = Num 0"
  shows "getCurrentBestLines this' = nothing_yet
       \<and> getCurrentBestLines (reset that) = nothing_yet
       \<and> getCurrentBestLines (fst (startAnalysing that options)) = nothing_yet
       \<and> bestLines (reset that) = []
       \<and> bestLines (fst (startAnalysing that options)) = []
       \<and> bestLines (fst (stopAnalysing that)) = bestLines that
       \<and> bestLines (fst (setBoardstateByFen that fen)) = bestLines that
       \<and> bestLines (fst (setBoardstateByMoves that mvs)) = bestLines that
       \<and> bestLines (onAnalysisData that listener) = bestLines that"
proof -
  from on_stdout_chunks_no_depth_0 [OF assms(2,1,3)]
  have "map_of (bestLines this') (Num 0) = None" .
  with assms(4) have main: "getCurrentBestLines this' = nothing_yet"
    by (simp add: getCurrentBestLines_def nothing_yet_def)
  have others: "getCurrentBestLines (reset that) = nothing_yet"
    "getCurrentBestLines (fst (startAnalysing that options)) = nothing_yet"
    "bestLines (reset that) = []"
    "bestLines (fst (startAnalysing that options)) = []"
    "bestLines (fst (stopAnalysing that)) = bestLines that"
    "bestLines (fst (setBoardstateByFen that fen)) = bestLines that"
    "bestLines (fst (setBoardstateByMoves that mvs)) = bestLines that"
    "bestLines (onAnalysisData that listener) = bestLines that"
    by (simp_all add: getCurrentBestLines_def nothing_yet_def reset_def startAnalysing_def
        stopAnalysing_def setBoardstateByFen_def setBoardstateByMoves_def onAnalysisData_def
        Let_def)
  from main others show ?thesis
    by (intro conjI)
qed

theorem getCurrentBestLines_before_first_completion_witness:
  "map_of (bestLines (session white_fen (Some (Num 3)))) (Num 0) = None
   \<and> on_stdout_chunks (session white_fen (Some (Num 3)))
        [''info depth 1 multipv 1 sc'', ''ore cp 25 pv e2e4\<newline>info depth 2 cu'']
       = Inr (rank_1_of_3\<lparr>stockfishOutputBuffer := ''info depth 2 cu''\<rparr>, [])
   \<and> list_all (\<lambda>line. \<not> has_fields line \<or> decode_depth line \<noteq> Num 0)
        (processed_lines (stockfishOutputBuffer (session white_fen (Some (Num 3))))
           [''info depth 1 multipv 1 sc'', ''ore cp 25 pv e2e4\<newline>info depth 2 cu''])
   \<and> currentDepth (rank_1_of_3\<lparr>stockfishOutputBuffer := ''info depth 2 cu''\<rparr>) = Num 0
   \<and> getCurrentBestLines (rank_1_of_3\<lparr>stockfishOutputBuffer := ''info depth 2 cu''\<rparr>)
       = nothing_yet"
proof -
  let ?start = "session white_fen (Some (Num 3))"
  let ?chunks = "[''info depth 1 multipv 1 sc'', ''ore cp 25 pv e2e4\<newline>info depth 2 cu'']"
  let ?after = "rank_1_of_3\<lparr>stockfishOutputBuffer := ''info depth 2 cu''\<rparr>"
  have h1: "map_of (bestLines ?start) (Num 0) = None"
    by code_simp
  have h2: "on_stdout_chunks ?start ?chunks = Inr (?after, [])"
    by code_simp
  have every: "list_all (\<lambda>line. \<not> has_fields line \<or> decode_depth line \<noteq> Num 0)
        (processed_lines (stockfishOutputBuffer ?start) ?chunks)"
    by code_simp
  then have h3: "\<forall>line \<in> set (processed_lines (stockfishOutputBuffer ?start) ?chunks).
           has_fields line \<longrightarrow> decode_depth line \<noteq> Num 0"
    by (auto simp: list_all_iff)
  have h4: "currentDepth ?after = Num 0"
    by code_simp
  note general = getCurrentBestLines_before_first_completion [OF h1 h2 h3 h4, THEN conjunct1]
  show ?thesis
    by (rule conjI [OF h1 conjI [OF h2 conjI [OF every conjI [OF h4 general]]]])
qed

text \<open>
  C10, as the claim states it, fails once an info line with depth 0 was stored. Three
  lines are requested and the engine reports rank 1 at depth 0: no depth has completed,
  no listener was called, \<open>currentDepth\<close> is 0, and \<open>bestLines\<close> has an entry for depth
  0, so the query answers with an array of one line, not with \<open>undefined\<close>.
\<close>

theorem getCurrentBestLines_before_first_completion_counterexample:
  "on_stdout_data (session white_fen (Some (Num 3))) (depth_0_line @ [CHR 0x0A])
     = Inr ((session white_fen (Some (Num 3)))
              \<lparr>bestLines := [(Num 0, dense [exact_line (1 / 4) [''e2e4'']])]\<rparr>, [])
   \<and> currentDepth ((session white_fen (Some (Num 3)))
              \<lparr>bestLines := [(Num 0, dense [exact_line (1 / 4) [''e2e4'']])]\<rparr>) = Num 0
   \<and> getCurrentBestLines ((session white_fen (Some (Num 3)))
              \<lparr>bestLines := [(Num 0, dense [exact_line (1 / 4) [''e2e4'']])]\<rparr>)
       = \<lparr>depth = Num 0, lines = Some (dense [exact_line (1 / 4) [''e2e4'']]),
          noLegalMoves = None\<rparr>"
  by code_simp

end
